theory Spec2Isabelle
  imports Main "HOL-Library.AList"
begin

section \<open>The configuration store of azul-client\<close>

text \<open>
  This theory embeds \<^verbatim>\<open>src/azul_client/config.py\<close>: the module globals
  \<^verbatim>\<open>config_section\<close>, \<^verbatim>\<open>config_location\<close> and \<^verbatim>\<open>_lock_azul_config\<close>, the classes
  \<^verbatim>\<open>ConfigLocation\<close> and \<^verbatim>\<open>Config\<close>, and the functions \<^verbatim>\<open>switch_section\<close>,
  \<^verbatim>\<open>Config.save\<close>, \<^verbatim>\<open>clear_auth\<close> and \<^verbatim>\<open>get_config\<close>.

  The module is thirty lines of glue around four libraries, and what it does is decided by
  them. They are embedded as far as the module uses them, in the configuration that the module
  gives them:
  \<^item> \<^verbatim>\<open>configparser.ConfigParser()\<close> of the standard library (CPython 3.11/3.12) with its
    defaults: delimiters \<^verbatim>\<open>=\<close> and \<^verbatim>\<open>:\<close>, full-line comments \<^verbatim>\<open>#\<close> and \<^verbatim>\<open>;\<close>, no inline comments,
    strict, empty lines in values, \<^verbatim>\<open>BasicInterpolation\<close>, default section \<^verbatim>\<open>DEFAULT\<close>;
  \<^item> \<^verbatim>\<open>json.dumps\<close> and \<^verbatim>\<open>json.loads\<close> of the standard library with their defaults;
  \<^item> \<^verbatim>\<open>pydantic_settings.BaseSettings\<close>: fields are taken from the keyword arguments, then from
    the environment (names compared in lower case), then from the declared defaults; unknown
    keyword arguments are refused; strings are coerced to the declared types;
  \<^item> \<^verbatim>\<open>filelock.FileLock\<close> used as a decorator: a counter makes it reentrant.

  Text is a list of characters with code points below 256, and the character classes are those
  of Python on these code points. A Python \<^verbatim>\<open>float\<close> is represented by its \<^verbatim>\<open>repr\<close>. Where an
  input leaves the fragment of a library that is embedded here (a float whose \<^verbatim>\<open>repr\<close> is not a
  short plain decimal, a number written with white space or underscores, a JSON escape above
  U+00FF, a keyword argument that pydantic-settings reserves), the embedding answers
  \<open>Unmodelled\<close> instead of guessing; no theorem below draws a conclusion from that answer. Not
  embedded at all: text encodings, file permissions and directories, the limit on the digits
  of an integer conversion, the recursion limit, and other threads or processes running at the
  same time.
\<close>

datatype error =
    MissingSectionHeaderError
  | DuplicateSectionError
  | DuplicateOptionError
  | ParsingError
  | InterpolationSyntaxError
  | InterpolationMissingOptionError
  | InterpolationDepthError
  | NoSectionError
  | NoOptionError
  | KeyError
  | ValueError
  | TypeError
  | JSONDecodeError
  | ValidationError
  | InvalidSection string
  | FileNotFoundError
  | Timeout
  | Unmodelled

subsection \<open>Python strings\<close>

abbreviation NL :: char where "NL \<equiv> CHR 0x0A"
abbreviation CR :: char where "CR \<equiv> CHR 0x0D"
abbreviation TAB :: char where "TAB \<equiv> CHR 0x09"

text \<open>\<^verbatim>\<open>str.isspace\<close> and the class \<^verbatim>\<open>\s\<close> of \<^verbatim>\<open>re\<close>, on code points below 256.\<close>

definition isspace :: "char \<Rightarrow> bool" where
  "isspace c \<longleftrightarrow> c \<in> set [CHR 0x09, CHR 0x0A, CHR 0x0B, CHR 0x0C, CHR 0x0D, CHR 0x1C,
     CHR 0x1D, CHR 0x1E, CHR 0x1F, CHR 0x20, CHR 0x85, CHR 0xA0]"

definition lstrip :: "string \<Rightarrow> string" where
  "lstrip s = dropWhile isspace s"

definition rstrip :: "string \<Rightarrow> string" where
  "rstrip s = rev (dropWhile isspace (rev s))"

definition strip :: "string \<Rightarrow> string" where
  "strip s = lstrip (rstrip s)"

text \<open>\<^verbatim>\<open>v.rstrip("/")\<close>\<close>

definition rstrip_slash :: "string \<Rightarrow> string" where
  "rstrip_slash s = rev (dropWhile (\<lambda>c. c = CHR ''/'') (rev s))"

definition startswith :: "string \<Rightarrow> string \<Rightarrow> bool" where
  "startswith s p \<longleftrightarrow> take (length p) s = p"

text \<open>\<^verbatim>\<open>str.lower\<close>: the letters A-Z, and those of Latin-1 (U+00C0-U+00DE without U+00D7).\<close>

definition lower_char :: "char \<Rightarrow> char" where
  "lower_char c =
     (let n = (of_char c :: nat)
      in if (65 \<le> n \<and> n \<le> 90) \<or> (192 \<le> n \<and> n \<le> 222 \<and> n \<noteq> 215)
         then char_of (n + 32) else c)"

definition lower :: "string \<Rightarrow> string" where
  "lower s = map lower_char s"

text \<open>\<^verbatim>\<open>sep.join(xs)\<close>\<close>

fun join :: "string \<Rightarrow> string list \<Rightarrow> string" where
  "join sep [] = []"
| "join sep [x] = x"
| "join sep (x # y # ys) = x @ sep @ join sep (y # ys)"

text \<open>\<^verbatim>\<open>s.replace(old, new)\<close>, scanning from the left as Python does.\<close>

fun replace :: "string \<Rightarrow> string \<Rightarrow> string \<Rightarrow> string" where
  "replace old new [] = []"
| "replace old new (c # cs) =
     (if old \<noteq> [] \<and> take (length old) (c # cs) = old
      then new @ replace old new (drop (length old) (c # cs))
      else c # replace old new cs)"

subsection \<open>Text files\<close>

text \<open>
  A file opened in text mode for reading translates \<^verbatim>\<open>\r\n\<close> and \<^verbatim>\<open>\r\<close> to \<^verbatim>\<open>\n\<close>; iterating
  over it yields the lines, each with its newline. On POSIX, writing translates nothing.
\<close>

fun universal_newlines :: "string \<Rightarrow> string" where
  "universal_newlines [] = []"
| "universal_newlines [c] = (if c = CR then [NL] else [c])"
| "universal_newlines (c # d # cs) =
     (if c = CR then
        (if d = NL then NL # universal_newlines cs else NL # universal_newlines (d # cs))
      else c # universal_newlines (d # cs))"

fun readlines_from :: "string \<Rightarrow> string \<Rightarrow> string list" where
  "readlines_from cur [] = (if cur = [] then [] else [cur])"
| "readlines_from cur (c # cs) =
     (if c = NL then (cur @ [c]) # readlines_from [] cs else readlines_from (cur @ [c]) cs)"

definition readlines :: "string \<Rightarrow> string list" where
  "readlines text = readlines_from [] (universal_newlines text)"

subsection \<open>configparser: reading\<close>

text \<open>
  \<^verbatim>\<open>SECTCRE.match(value)\<close>, the pattern \<^verbatim>\<open>\[(?P<header>.+)\]\<close>: an opening bracket, and the
  header runs to the last closing bracket of the line; it is not empty.
\<close>

definition sect_match :: "string \<Rightarrow> string option" where
  "sect_match v =
     (case v of
        [] \<Rightarrow> None
      | c # rest \<Rightarrow>
          (let header = rev (tl (dropWhile (\<lambda>x. x \<noteq> CHR '']'') (rev rest)))
           in if c = CHR ''['' \<and> CHR '']'' \<in> set rest \<and> header \<noteq> [] then Some header else None))"

text \<open>
  \<^verbatim>\<open>self._optcre.match(value)\<close>, the pattern
  \<^verbatim>\<open>(?P<option>.*?)\s*(?P<vi>=|:)\s*(?P<value>.*)$\<close>: the option is what stands before the first
  delimiter, without the white space in front of the delimiter; the value is what follows it,
  without leading white space. The groups \<open>option\<close> and \<open>value\<close> are returned.
\<close>

definition is_delim :: "char \<Rightarrow> bool" where
  "is_delim c \<longleftrightarrow> c = CHR ''='' \<or> c = CHR '':''"

definition opt_match :: "string \<Rightarrow> (string \<times> string) option" where
  "opt_match v =
     (case dropWhile (\<lambda>c. \<not> is_delim c) v of
        [] \<Rightarrow> None
      | d # after \<Rightarrow> Some (rstrip (takeWhile (\<lambda>c. \<not> is_delim c) v), lstrip after))"

text \<open>
  The local variables of \<^verbatim>\<open>RawConfigParser._read\<close> and the two dictionaries it fills. While
  the file is read a value is the list of its lines. \<^verbatim>\<open>cursect\<close> is the dictionary of the
  section \<^verbatim>\<open>sectname\<close>: \<^verbatim>\<open>_defaults\<close> for the default section, \<^verbatim>\<open>_sections[sectname]\<close>
  otherwise, and \<^verbatim>\<open>None\<close> as long as \<^verbatim>\<open>sectname\<close> is.
\<close>

type_synonym 'v pydict = "(string \<times> 'v) list"

record reader =
  r_sections :: "(string list pydict) pydict"
  r_defaults :: "string list pydict"
  sectname :: "string option"
  optname :: "string option"
  indent_level :: nat
  elements_added :: "(string + string \<times> string) list"
  exc :: bool

definition default_section :: string where
  "default_section = ''DEFAULT''"

definition new_reader :: reader where
  "new_reader = \<lparr>r_sections = [], r_defaults = [], sectname = None, optname = None,
     indent_level = 0, elements_added = [], exc = False\<rparr>"

text \<open>The truth value of \<^verbatim>\<open>optname\<close>: neither \<^verbatim>\<open>None\<close> nor the empty string.\<close>

definition truthy :: "string option \<Rightarrow> bool" where
  "truthy x \<longleftrightarrow> x \<noteq> None \<and> x \<noteq> Some []"

text \<open>\<^verbatim>\<open>cursect[optname].append(v)\<close>\<close>

definition cursect_append :: "string \<Rightarrow> string \<Rightarrow> string \<Rightarrow> reader \<Rightarrow> reader" where
  "cursect_append sn opt v r =
     (if sn = default_section
      then r\<lparr>r_defaults := AList.map_entry opt (\<lambda>l. l @ [v]) (r_defaults r)\<rparr>
      else r\<lparr>r_sections :=
              AList.map_entry sn (AList.map_entry opt (\<lambda>l. l @ [v])) (r_sections r)\<rparr>)"

text \<open>\<^verbatim>\<open>cursect[optname] = [optval]\<close>\<close>

definition cursect_set :: "string \<Rightarrow> string \<Rightarrow> string \<Rightarrow> reader \<Rightarrow> reader" where
  "cursect_set sn opt v r =
     (if sn = default_section
      then r\<lparr>r_defaults := AList.update opt [v] (r_defaults r)\<rparr>
      else r\<lparr>r_sections := AList.map_entry sn (AList.update opt [v]) (r_sections r)\<rparr>)"

text \<open>The body of the loop of \<^verbatim>\<open>_read\<close>, for one line.\<close>

definition read_line :: "reader \<Rightarrow> string \<Rightarrow> error + reader" where
  "read_line r line =
     (let comment = (startswith (strip line) ''#'' \<or> startswith (strip line) '';'');
          v = (if comment then [] else strip line)
      in if v = [] then
           (case sectname r of
              Some sn \<Rightarrow>
                if \<not> comment \<and> truthy (optname r)
                then Inr (cursect_append sn (the (optname r)) [] r) else Inr r
            | None \<Rightarrow> Inr r)
         else
           (let cur_indent_level = length (takeWhile isspace line)
            in if sectname r \<noteq> None \<and> truthy (optname r) \<and> cur_indent_level > indent_level r
               then Inr (cursect_append (the (sectname r)) (the (optname r)) v r)
               else
                 (let r1 = r\<lparr>indent_level := cur_indent_level\<rparr>
                  in case sect_match v of
                       Some header \<Rightarrow>
                         if header \<in> set (map fst (r_sections r1)) then
                           (if Inl header \<in> set (elements_added r1)
                            then Inl DuplicateSectionError
                            else Inr (r1\<lparr>sectname := Some header, optname := None,
                                     elements_added := elements_added r1 @ [Inl header]\<rparr>))
                         else if header = default_section then
                           Inr (r1\<lparr>sectname := Some header, optname := None\<rparr>)
                         else
                           Inr (r1\<lparr>r_sections := r_sections r1 @ [(header, [])],
                                  sectname := Some header, optname := None,
                                  elements_added := elements_added r1 @ [Inl header]\<rparr>)
                     | None \<Rightarrow>
                         (case sectname r1 of
                            None \<Rightarrow> Inl MissingSectionHeaderError
                          | Some sn \<Rightarrow>
                              (case opt_match v of
                                 Some (option, optval) \<Rightarrow>
                                   (let r2 = (if option = [] then r1\<lparr>exc := True\<rparr> else r1);
                                        name = lower (rstrip option)
                                    in if Inr (sn, name) \<in> set (elements_added r2)
                                       then Inl DuplicateOptionError
                                       else Inr (cursect_set sn name (strip optval)
                                              (r2\<lparr>optname := Some name,
                                                 elements_added :=
                                                   elements_added r2 @ [Inr (sn, name)]\<rparr>)))
                               | None \<Rightarrow> Inr (r1\<lparr>exc := True\<rparr>))))))"

fun read_lines :: "reader \<Rightarrow> string list \<Rightarrow> error + reader" where
  "read_lines r [] = Inr r"
| "read_lines r (line # rest) =
     (case read_line r line of Inl err \<Rightarrow> Inl err | Inr r' \<Rightarrow> read_lines r' rest)"

text \<open>
  A parser after reading: \<^verbatim>\<open>_defaults\<close> and \<^verbatim>\<open>_sections\<close>, dictionaries in insertion order.
\<close>

record configparser =
  defaults :: "string pydict"
  sections :: "(string pydict) pydict"

definition ConfigParser :: configparser where
  "ConfigParser = \<lparr>defaults = [], sections = []\<rparr>"

text \<open>\<^verbatim>\<open>_join_multiline_values\<close>: \<^verbatim>\<open>'\n'.join(val).rstrip()\<close> for every value.\<close>

definition join_value :: "string list \<Rightarrow> string" where
  "join_value val = rstrip (join [NL] val)"

definition join_multiline_values :: "reader \<Rightarrow> configparser" where
  "join_multiline_values r =
     \<lparr>defaults = map (\<lambda>(k, val). (k, join_value val)) (r_defaults r),
      sections = map (\<lambda>(s, opts). (s, map (\<lambda>(k, val). (k, join_value val)) opts)) (r_sections r)\<rparr>"

text \<open>
  \<^verbatim>\<open>_read\<close> on the lines of a file, into a new parser: an exception raised in the loop leaves
  at once, and the lines that are neither header nor option raise \<^verbatim>\<open>ParsingError\<close> at the end.
\<close>

definition read_text :: "string \<Rightarrow> error + configparser" where
  "read_text text =
     (case read_lines new_reader (readlines text) of
        Inl err \<Rightarrow> Inl err
      | Inr r \<Rightarrow> if exc r then Inl ParsingError else Inr (join_multiline_values r))"

text \<open>
  The file system maps a path to the text of the file. No file can be opened under the empty
  path (\<^verbatim>\<open>FileNotFoundError\<close>) or a path with a null character (\<^verbatim>\<open>ValueError\<close>); for both
  \<^verbatim>\<open>os.path.exists\<close> is false. Directories and permissions are not embedded: every other path can
  be opened for writing.
\<close>

definition open_error :: "string \<Rightarrow> error option" where
  "open_error path =
     (if path = [] then Some FileNotFoundError
      else if CHR 0x00 \<in> set path then Some ValueError else None)"

definition path_exists :: "(string \<rightharpoonup> string) \<Rightarrow> string \<Rightarrow> bool" where
  "path_exists fs path \<longleftrightarrow> open_error path = None \<and> fs path \<noteq> None"

text \<open>
  \<^verbatim>\<open>cfg = ConfigParser(); cfg.read(location)\<close>: a file that cannot be opened because of an
  \<^verbatim>\<open>OSError\<close> is skipped.
\<close>

definition cfg_read :: "(string \<rightharpoonup> string) \<Rightarrow> string \<Rightarrow> error + configparser" where
  "cfg_read fs location =
     (case open_error location of
        Some err \<Rightarrow> if err = FileNotFoundError then Inr ConfigParser else Inl err
      | None \<Rightarrow> (case fs location of None \<Rightarrow> Inr ConfigParser | Some text \<Rightarrow> read_text text))"

subsection \<open>configparser: writing\<close>

text \<open>\<^verbatim>\<open>_write_section\<close> and \<^verbatim>\<open>write\<close>, with spaces around the delimiter.\<close>

definition write_option :: "string \<times> string \<Rightarrow> string" where
  "write_option kv = fst kv @ '' = '' @ replace [NL] [NL, TAB] (snd kv) @ [NL]"

definition write_section :: "string \<Rightarrow> string pydict \<Rightarrow> string" where
  "write_section section_name section_items =
     ''['' @ section_name @ '']'' @ [NL] @ concat (map write_option section_items) @ [NL]"

definition cfg_write :: "configparser \<Rightarrow> string" where
  "cfg_write cfg =
     (if defaults cfg \<noteq> [] then write_section default_section (defaults cfg) else [])
     @ concat (map (\<lambda>(s, opts). write_section s opts) (sections cfg))"

subsection \<open>configparser: interpolation\<close>

text \<open>
  \<^verbatim>\<open>BasicInterpolation._KEYCRE.match(s)\<close>, the pattern \<^verbatim>\<open>%\(([^)]+)\)s\<close>: the name between the
  brackets, and what follows the match.
\<close>

definition keycre_match :: "string \<Rightarrow> (string \<times> string) option" where
  "keycre_match s =
     (case s of
        c1 # c2 # t \<Rightarrow>
          (let name = takeWhile (\<lambda>c. c \<noteq> CHR '')'') t;
               after = dropWhile (\<lambda>c. c \<noteq> CHR '')'') t
           in if c1 = CHR ''%'' \<and> c2 = CHR ''('' \<and> name \<noteq> [] \<and> take 2 after = '')s''
              then Some (name, drop 2 after) else None)
      | _ \<Rightarrow> None)"

lemma keycre_match_shorter: "keycre_match s = Some (name, rest) \<Longrightarrow> length rest < length s"
proof -
  have "length (dropWhile P t) - 2 < Suc (Suc (length t))" for P and t :: string
    using length_dropWhile_le [of P t] by simp
  then show "keycre_match s = Some (name, rest) \<Longrightarrow> length rest < length s"
    by (auto simp: keycre_match_def Let_def split: list.splits if_splits)
qed

text \<open>\<^verbatim>\<open>_KEYCRE.sub('', s)\<close>\<close>

function keycre_sub :: "string \<Rightarrow> string" where
  "keycre_sub [] = []"
| "keycre_sub (c # cs) =
     (case keycre_match (c # cs) of
        Some (name, rest) \<Rightarrow> keycre_sub rest
      | None \<Rightarrow> c # keycre_sub cs)"
  by pat_completeness auto
termination
  by (relation "measure length") (auto dest: keycre_match_shorter)

text \<open>\<^verbatim>\<open>BasicInterpolation.before_set\<close>\<close>

definition before_set :: "string \<Rightarrow> error + string" where
  "before_set v =
     (let tmp_value = keycre_sub (replace ''%%'' [] v)
      in if CHR ''%'' \<in> set tmp_value then Inl ValueError else Inr v)"

definition MAX_INTERPOLATION_DEPTH :: nat where
  "MAX_INTERPOLATION_DEPTH = 10"

text \<open>
  \<^verbatim>\<open>BasicInterpolation._interpolate_some\<close>; the result is what the call appends to \<^verbatim>\<open>accum\<close>.
  The text before the next \<^verbatim>\<open>%\<close> is copied, here one character at a time.
\<close>

function interpolate_some :: "nat \<Rightarrow> (string \<rightharpoonup> string) \<Rightarrow> string \<Rightarrow> error + string" where
  "interpolate_some depth m rest =
     (if depth > MAX_INTERPOLATION_DEPTH then Inl InterpolationDepthError
      else case rest of
        [] \<Rightarrow> Inr []
      | c # cs \<Rightarrow>
          if c \<noteq> CHR ''%'' then
            (case interpolate_some depth m cs of Inl err \<Rightarrow> Inl err | Inr out \<Rightarrow> Inr (c # out))
          else if take 1 cs = ''%'' then
            (case interpolate_some depth m (drop 1 cs) of
               Inl err \<Rightarrow> Inl err
             | Inr out \<Rightarrow> Inr (CHR ''%'' # out))
          else if take 1 cs = ''('' then
            (case keycre_match (c # cs) of
               None \<Rightarrow> Inl InterpolationSyntaxError
             | Some (name, rest') \<Rightarrow>
                 (case m (lower name) of
                    None \<Rightarrow> Inl InterpolationMissingOptionError
                  | Some v \<Rightarrow>
                      (case (if CHR ''%'' \<in> set v then interpolate_some (depth + 1) m v
                             else Inr v) of
                         Inl err \<Rightarrow> Inl err
                       | Inr out \<Rightarrow>
                           (case interpolate_some depth m rest' of
                              Inl err \<Rightarrow> Inl err
                            | Inr out' \<Rightarrow> Inr (out @ out')))))
          else Inl InterpolationSyntaxError)"
  by pat_completeness auto
termination
  by (relation "measures [\<lambda>(depth, m, rest). Suc MAX_INTERPOLATION_DEPTH - depth,
                          \<lambda>(depth, m, rest). length rest]")
     (auto dest: keycre_match_shorter)

declare interpolate_some.simps [simp del]

text \<open>\<^verbatim>\<open>BasicInterpolation.before_get\<close>\<close>

definition before_get :: "(string \<rightharpoonup> string) \<Rightarrow> string \<Rightarrow> error + string" where
  "before_get m v = interpolate_some 1 m v"

subsection \<open>configparser: the mapping protocol\<close>

definition has_section :: "configparser \<Rightarrow> string \<Rightarrow> bool" where
  "has_section cfg section \<longleftrightarrow> section \<in> set (map fst (sections cfg))"

text \<open>The options of a section, or the empty dictionary.\<close>

definition section_dict :: "configparser \<Rightarrow> string \<Rightarrow> string pydict" where
  "section_dict cfg section = (case map_of (sections cfg) section of Some d \<Rightarrow> d | None \<Rightarrow> [])"

definition has_option :: "configparser \<Rightarrow> string \<Rightarrow> string \<Rightarrow> bool" where
  "has_option cfg section option \<longleftrightarrow>
     (if section = [] \<or> section = default_section
      then lower option \<in> set (map fst (defaults cfg))
      else if \<not> has_section cfg section then False
      else lower option \<in> set (map fst (section_dict cfg section))
           \<or> lower option \<in> set (map fst (defaults cfg)))"

text \<open>\<^verbatim>\<open>_unify_values(section, None)\<close>: the section before the defaults.\<close>

definition unify_values :: "configparser \<Rightarrow> string \<Rightarrow> error + (string \<rightharpoonup> string)" where
  "unify_values cfg section =
     (if \<not> has_section cfg section \<and> section \<noteq> default_section then Inl NoSectionError
      else Inr (map_of (defaults cfg) ++ map_of (section_dict cfg section)))"

text \<open>\<^verbatim>\<open>get(section, option)\<close>\<close>

definition cp_get :: "configparser \<Rightarrow> string \<Rightarrow> string \<Rightarrow> error + string" where
  "cp_get cfg section option =
     (case unify_values cfg section of
        Inl err \<Rightarrow> Inl err
      | Inr d \<Rightarrow>
          (case d (lower option) of
             None \<Rightarrow> Inl NoOptionError
           | Some v \<Rightarrow> before_get d v))"

text \<open>
  \<^verbatim>\<open>SectionProxy._options\<close>: the keys of the section, then the keys that only the defaults have.
\<close>

definition proxy_options :: "configparser \<Rightarrow> string \<Rightarrow> string list" where
  "proxy_options cfg section =
     (if section \<noteq> default_section
      then map fst (section_dict cfg section)
           @ filter (\<lambda>k. k \<notin> set (map fst (section_dict cfg section))) (map fst (defaults cfg))
      else map fst (defaults cfg))"

text \<open>\<^verbatim>\<open>SectionProxy.__getitem__\<close>\<close>

definition proxy_getitem :: "configparser \<Rightarrow> string \<Rightarrow> string \<Rightarrow> error + string" where
  "proxy_getitem cfg section key =
     (if \<not> has_option cfg section key then Inl KeyError else cp_get cfg section key)"

fun proxy_items :: "configparser \<Rightarrow> string \<Rightarrow> string list \<Rightarrow> error + string pydict" where
  "proxy_items cfg section [] = Inr []"
| "proxy_items cfg section (k # ks) =
     (case proxy_getitem cfg section k of
        Inl err \<Rightarrow> Inl err
      | Inr v \<Rightarrow>
          (case proxy_items cfg section ks of
             Inl err \<Rightarrow> Inl err
           | Inr kvs \<Rightarrow> Inr ((k, v) # kvs)))"

text \<open>
  \<^verbatim>\<open>{**cfg[section]}\<close>: \<^verbatim>\<open>__getitem__\<close> of the parser, then the keys and values of the proxy.
\<close>

definition section_as_dict :: "configparser \<Rightarrow> string \<Rightarrow> error + string pydict" where
  "section_as_dict cfg section =
     (if section \<noteq> default_section \<and> \<not> has_section cfg section then Inl KeyError
      else proxy_items cfg section (proxy_options cfg section))"

text \<open>\<^verbatim>\<open>ConfigParser.set\<close>, on a value that is a string.\<close>

definition cp_set :: "configparser \<Rightarrow> string \<Rightarrow> string \<Rightarrow> string \<Rightarrow> error + configparser" where
  "cp_set cfg section option v =
     (case (if v \<noteq> [] then before_set v else Inr v) of
        Inl err \<Rightarrow> Inl err
      | Inr v' \<Rightarrow>
          if section = [] \<or> section = default_section
          then Inr (cfg\<lparr>defaults := AList.update (lower option) v' (defaults cfg)\<rparr>)
          else if has_section cfg section
          then Inr (cfg\<lparr>sections :=
                 AList.map_entry section (AList.update (lower option) v') (sections cfg)\<rparr>)
          else Inl NoSectionError)"

text \<open>\<^verbatim>\<open>add_section\<close>\<close>

definition add_section :: "configparser \<Rightarrow> string \<Rightarrow> error + configparser" where
  "add_section cfg section =
     (if section = default_section then Inl ValueError
      else if has_section cfg section then Inl DuplicateSectionError
      else Inr (cfg\<lparr>sections := sections cfg @ [(section, [])]\<rparr>))"

text \<open>
  \<^verbatim>\<open>read_dict({section: keys})\<close>, on values that \<^verbatim>\<open>str\<close> has converted: the loop over the keys,
  then the whole. The failure of \<^verbatim>\<open>add_section\<close> is caught, as \<^verbatim>\<open>elements_added\<close> is empty then.
\<close>

fun read_dict_keys ::
  "configparser \<Rightarrow> string \<Rightarrow> string list \<Rightarrow> string pydict \<Rightarrow> error + configparser" where
  "read_dict_keys cfg section added [] = Inr cfg"
| "read_dict_keys cfg section added ((key, v) # keys) =
     (if lower key \<in> set added then Inl DuplicateOptionError
      else case cp_set cfg section (lower key) v of
        Inl err \<Rightarrow> Inl err
      | Inr cfg' \<Rightarrow> read_dict_keys cfg' section (added @ [lower key]) keys)"

definition read_dict :: "configparser \<Rightarrow> string \<Rightarrow> string pydict \<Rightarrow> error + configparser" where
  "read_dict cfg section keys =
     read_dict_keys (case add_section cfg section of Inl err \<Rightarrow> cfg | Inr cfg' \<Rightarrow> cfg')
       section [] keys"

text \<open>\<^verbatim>\<open>cfg[key] = value\<close> for a dictionary \<^verbatim>\<open>value\<close>: \<^verbatim>\<open>__setitem__\<close>\<close>

definition cp_setitem :: "configparser \<Rightarrow> string \<Rightarrow> string pydict \<Rightarrow> error + configparser" where
  "cp_setitem cfg key keys =
     read_dict
       (if key = default_section then cfg\<lparr>defaults := []\<rparr>
        else if has_section cfg key
        then cfg\<lparr>sections := AList.map_entry key (\<lambda>d. []) (sections cfg)\<rparr>
        else cfg)
       key keys"

subsection \<open>Python values and \<^verbatim>\<open>str\<close>\<close>

text \<open>
  A \<^verbatim>\<open>float\<close>, by its \<^verbatim>\<open>repr\<close>. Only the floats whose \<^verbatim>\<open>repr\<close> is a short plain decimal are embedded
  (see \<open>float_repr_ok\<close> below).
\<close>

datatype pyfloat = PyFloat string

text \<open>
  The values that the token holds: \<^verbatim>\<open>None\<close>, \<^verbatim>\<open>bool\<close>, \<^verbatim>\<open>int\<close>, \<^verbatim>\<open>float\<close>, \<^verbatim>\<open>str\<close>, \<^verbatim>\<open>list\<close>,
  \<^verbatim>\<open>dict\<close> (in insertion order), and \<open>PObj\<close> for an object of any type that \<^verbatim>\<open>json\<close> does not
  serialise (\<^verbatim>\<open>bytes\<close>, \<^verbatim>\<open>set\<close>, ...), named by its type.
\<close>

datatype pyval =
    PNone
  | PBool bool
  | PInt int
  | PFloat pyfloat
  | PStr string
  | PList "pyval list"
  | PDict "(pyval \<times> pyval) list"
  | PObj string

definition digit_char :: "nat \<Rightarrow> char" where
  "digit_char d = char_of (48 + d)"

definition is_digit :: "char \<Rightarrow> bool" where
  "is_digit c \<longleftrightarrow> 48 \<le> (of_char c :: nat) \<and> (of_char c :: nat) \<le> 57"

definition digit_val :: "char \<Rightarrow> nat" where
  "digit_val c = of_char c - 48"

fun str_nat :: "nat \<Rightarrow> string" where
  "str_nat n = (if n < 10 then [digit_char n] else str_nat (n div 10) @ [digit_char (n mod 10)])"

declare str_nat.simps [simp del]

text \<open>\<^verbatim>\<open>str(i)\<close> for an \<^verbatim>\<open>int\<close>\<close>

definition str_int :: "int \<Rightarrow> string" where
  "str_int i = (if i < 0 then CHR ''-'' # str_nat (nat (- i)) else str_nat (nat i))"

text \<open>\<^verbatim>\<open>str(b)\<close> for a \<^verbatim>\<open>bool\<close>\<close>

definition str_bool :: "bool \<Rightarrow> string" where
  "str_bool b = (if b then ''True'' else ''False'')"

text \<open>\<^verbatim>\<open>str(x)\<close> for a \<^verbatim>\<open>float\<close>\<close>

fun str_float :: "pyfloat \<Rightarrow> string" where
  "str_float (PyFloat r) = r"

text \<open>The value of a string of decimal digits.\<close>

definition nat_of_digits :: "string \<Rightarrow> nat" where
  "nat_of_digits ds = foldl (\<lambda>n c. 10 * n + digit_val c) 0 ds"

text \<open>A sign, and a literal without it.\<close>

definition is_sign :: "char \<Rightarrow> bool" where
  "is_sign c \<longleftrightarrow> c = CHR ''+'' \<or> c = CHR ''-''"

definition unsigned :: "string \<Rightarrow> string" where
  "unsigned s = (if s \<noteq> [] \<and> is_sign (hd s) then tl s else s)"

definition int_of_literal :: "string \<Rightarrow> int" where
  "int_of_literal s =
     (if take 1 s = ''-'' then - int (nat_of_digits (unsigned s))
      else int (nat_of_digits (unsigned s)))"

text \<open>
  The reprs of floats that are embedded: a plain decimal \<^verbatim>\<open>[-]I.F\<close> of at most 15 digits, as
  \<^verbatim>\<open>repr\<close> prints it (no leading zero in \<^verbatim>\<open>I\<close>, no trailing zero in \<^verbatim>\<open>F\<close> but for \<^verbatim>\<open>.0\<close>, not
  below \<^verbatim>\<open>0.0001\<close> in magnitude unless zero, and no negative zero). Every such decimal is the
  \<^verbatim>\<open>repr\<close> of exactly one float, the one that \<^verbatim>\<open>float\<close> makes of it.
\<close>

definition float_repr_ok :: "string \<Rightarrow> bool" where
  "float_repr_ok s \<longleftrightarrow>
     (let t = (if take 1 s = ''-'' then drop 1 s else s);
          i = takeWhile (\<lambda>c. c \<noteq> CHR ''.'') t;
          f = drop 1 (dropWhile (\<lambda>c. c \<noteq> CHR ''.'') t)
      in CHR ''.'' \<in> set t \<and> i \<noteq> [] \<and> f \<noteq> [] \<and> list_all is_digit i \<and> list_all is_digit f
         \<and> (i = ''0'' \<or> hd i \<noteq> CHR ''0'')
         \<and> (f = ''0'' \<or> last f \<noteq> CHR ''0'')
         \<and> length i + length f \<le> 15
         \<and> \<not> (i = ''0'' \<and> take 4 f = ''0000'')
         \<and> \<not> (take 1 s = ''-'' \<and> i = ''0'' \<and> f = ''0''))"

text \<open>
  A decimal literal, as \<^verbatim>\<open>float\<close>, the number pattern of \<^verbatim>\<open>json\<close> and the parser of pydantic
  take it: a sign, digits with a point somewhere among them, an exponent. Its parts are
  whether it starts with a minus, the digits before the point, the digits after it, and the
  exponent.
\<close>

definition float_parts :: "string \<Rightarrow> (bool \<times> string \<times> string \<times> int) option" where
  "float_parts s =
     (let t = unsigned s;
          ip = takeWhile is_digit t;
          r1 = dropWhile is_digit t;
          dot = (take 1 r1 = ''.'');
          fp = (if dot then takeWhile is_digit (drop 1 r1) else []);
          r2 = (if dot then dropWhile is_digit (drop 1 r1) else r1);
          ed = unsigned (drop 1 r2)
      in if ip = [] \<and> fp = [] then None
         else if r2 = [] then Some (take 1 s = ''-'', ip, fp, 0)
         else if (hd r2 = CHR ''e'' \<or> hd r2 = CHR ''E'') \<and> ed \<noteq> [] \<and> list_all is_digit ed
         then Some (take 1 s = ''-'', ip, fp,
                if take 1 (drop 1 r2) = ''-'' then - int (nat_of_digits ed)
                else int (nat_of_digits ed))
         else None)"

text \<open>
  The \<^verbatim>\<open>repr\<close> of the float that a literal denotes. The digits without the zeros in front and
  at the end, and the place of the point among them, give the plain decimal; it is the \<^verbatim>\<open>repr\<close>
  when it is one of the embedded ones. Every other float (too many digits, too large or too
  small for the plain notation, a negative zero, an overflow) is not embedded.
\<close>

definition float_of_parts :: "bool \<times> string \<times> string \<times> int \<Rightarrow> string option" where
  "float_of_parts p =
     (case p of (neg, ip, fp, ex) \<Rightarrow>
        (let d1 = dropWhile (\<lambda>c. c = CHR ''0'') (ip @ fp);
             tz = length (takeWhile (\<lambda>c. c = CHR ''0'') (rev d1));
             ds = take (length d1 - tz) d1;
             n = int (length ds);
             decpt = n + ex - int (length fp) + int tz
         in if ds \<noteq> [] \<and> (decpt < - 20 \<or> 40 < decpt) then None
            else
              (let body =
                     (if ds = [] then ''0.0''
                      else if decpt \<le> 0 then ''0.'' @ replicate (nat (- decpt)) (CHR ''0'') @ ds
                      else if n \<le> decpt
                      then ds @ replicate (nat (decpt - n)) (CHR ''0'') @ ''.0''
                      else take (nat decpt) ds @ ''.'' @ drop (nat decpt) ds);
                   r = (if neg then ''-'' else []) @ body
               in if float_repr_ok r then Some r else None)))"

definition float_of_literal :: "string \<Rightarrow> string option" where
  "float_of_literal s = (case float_parts s of None \<Rightarrow> None | Some p \<Rightarrow> float_of_parts p)"

subsection \<open>json.dumps\<close>

definition hex_char :: "nat \<Rightarrow> char" where
  "hex_char d = ''0123456789abcdef'' ! d"

text \<open>
  \<^verbatim>\<open>encode_basestring_ascii\<close>: the replacement of one character, as \<^verbatim>\<open>ensure_ascii\<close> asks.
\<close>

definition escape_char :: "char \<Rightarrow> string" where
  "escape_char c =
     (let n = (of_char c :: nat)
      in if c = CHR 0x22 then [CHR 0x5C, CHR 0x22]
         else if c = CHR 0x5C then [CHR 0x5C, CHR 0x5C]
         else if c = NL then [CHR 0x5C, CHR ''n'']
         else if c = CR then [CHR 0x5C, CHR ''r'']
         else if c = TAB then [CHR 0x5C, CHR ''t'']
         else if c = CHR 0x08 then [CHR 0x5C, CHR ''b'']
         else if c = CHR 0x0C then [CHR 0x5C, CHR ''f'']
         else if n < 32 \<or> 126 < n
         then [CHR 0x5C, CHR ''u'', CHR ''0'', CHR ''0'', hex_char (n div 16), hex_char (n mod 16)]
         else [c])"

definition encode_basestring_ascii :: "string \<Rightarrow> string" where
  "encode_basestring_ascii s = [CHR 0x22] @ concat (map escape_char s) @ [CHR 0x22]"

text \<open>The key of a dictionary, as the encoder turns it into a string.\<close>

fun dumps_key :: "pyval \<Rightarrow> error + string" where
  "dumps_key (PStr k) = Inr k"
| "dumps_key (PBool b) = Inr (if b then ''true'' else ''false'')"
| "dumps_key PNone = Inr ''null''"
| "dumps_key (PInt i) = Inr (str_int i)"
| "dumps_key (PFloat x) = Inr (str_float x)"
| "dumps_key _ = Inl TypeError"

text \<open>
  \<^verbatim>\<open>json.dumps(o)\<close> with the default separators; the items of a list and of a dictionary one
  after the other, each with what stands before it.
\<close>

fun json_dumps :: "pyval \<Rightarrow> error + string"
  and dumps_list :: "bool \<Rightarrow> pyval list \<Rightarrow> error + string"
  and dumps_dict :: "bool \<Rightarrow> (pyval \<times> pyval) list \<Rightarrow> error + string" where
  "json_dumps PNone = Inr ''null''"
| "json_dumps (PBool b) = Inr (if b then ''true'' else ''false'')"
| "json_dumps (PInt i) = Inr (str_int i)"
| "json_dumps (PFloat x) = Inr (str_float x)"
| "json_dumps (PStr s) = Inr (encode_basestring_ascii s)"
| "json_dumps (PList xs) =
     (case dumps_list True xs of Inl err \<Rightarrow> Inl err | Inr body \<Rightarrow> Inr (''['' @ body @ '']''))"
| "json_dumps (PDict kvs) =
     (case dumps_dict True kvs of Inl err \<Rightarrow> Inl err | Inr body \<Rightarrow> Inr (''{'' @ body @ ''}''))"
| "json_dumps (PObj ty) = Inl TypeError"
| "dumps_list first [] = Inr []"
| "dumps_list first (x # xs) =
     (case json_dumps x of
        Inl err \<Rightarrow> Inl err
      | Inr sx \<Rightarrow>
          (case dumps_list False xs of
             Inl err \<Rightarrow> Inl err
           | Inr rest \<Rightarrow> Inr ((if first then [] else '', '') @ sx @ rest)))"
| "dumps_dict first [] = Inr []"
| "dumps_dict first ((k, v) # kvs) =
     (case dumps_key k of
        Inl err \<Rightarrow> Inl err
      | Inr sk \<Rightarrow>
          (case json_dumps v of
             Inl err \<Rightarrow> Inl err
           | Inr sv \<Rightarrow>
               (case dumps_dict False kvs of
                  Inl err \<Rightarrow> Inl err
                | Inr rest \<Rightarrow>
                    Inr ((if first then [] else '', '') @ encode_basestring_ascii sk @ '': '' @ sv
                         @ rest))))"

subsection \<open>json.loads\<close>

definition json_ws :: "char \<Rightarrow> bool" where
  "json_ws c \<longleftrightarrow> c = CHR '' '' \<or> c = TAB \<or> c = NL \<or> c = CR"

definition skip_ws :: "string \<Rightarrow> string" where
  "skip_ws s = dropWhile json_ws s"

definition is_hex :: "char \<Rightarrow> bool" where
  "is_hex c \<longleftrightarrow> is_digit c \<or> c \<in> set ''abcdefABCDEF''"

definition hex_val :: "char \<Rightarrow> nat" where
  "hex_val c =
     (if is_digit c then digit_val c
      else if c \<in> set ''abcdef'' then of_char c - 87 else of_char c - 55)"

text \<open>\<^verbatim>\<open>BACKSLASH\<close>\<close>

definition backslash :: "char \<Rightarrow> char option" where
  "backslash c =
     (if c = CHR 0x22 then Some (CHR 0x22)
      else if c = CHR 0x5C then Some (CHR 0x5C)
      else if c = CHR ''/'' then Some (CHR ''/'')
      else if c = CHR ''b'' then Some (CHR 0x08)
      else if c = CHR ''f'' then Some (CHR 0x0C)
      else if c = CHR ''n'' then Some NL
      else if c = CHR ''r'' then Some CR
      else if c = CHR ''t'' then Some TAB
      else None)"

text \<open>
  \<^verbatim>\<open>scanstring(s, end)\<close> in strict mode, from the character after the opening quote: the string
  and what follows its closing quote. A code point above U+00FF is outside the embedding: the
  escape is read as the scanner reads it, and the string is \<open>None\<close> from then on. The scanner
  joins two escapes that form a surrogate pair; since both lie above U+00FF, reading them one
  after the other consumes the same text and finds the same errors.
\<close>

definition hex4 :: "string \<Rightarrow> nat" where
  "hex4 ds = foldl (\<lambda>n c. 16 * n + hex_val c) 0 ds"

definition scan_cons ::
  "char option \<Rightarrow> error + string option \<times> string \<Rightarrow> error + string option \<times> string" where
  "scan_cons ch r =
     (case r of
        Inl err \<Rightarrow> Inl err
      | Inr (str, after) \<Rightarrow>
          Inr (case (ch, str) of (Some c, Some cs) \<Rightarrow> Some (c # cs) | _ \<Rightarrow> None, after))"

fun scanstring :: "string \<Rightarrow> error + string option \<times> string" where
  "scanstring [] = Inl JSONDecodeError"
| "scanstring (c # cs) =
     (if c = CHR 0x22 then Inr (Some [], cs)
      else if c = CHR 0x5C then
        (case cs of
           [] \<Rightarrow> Inl JSONDecodeError
         | esc # rest \<Rightarrow>
             if esc = CHR ''u'' then
               (if length rest < 4 \<or> \<not> list_all is_hex (take 4 rest) then Inl JSONDecodeError
                else scan_cons
                       (if hex4 (take 4 rest) < 256 then Some (char_of (hex4 (take 4 rest)))
                        else None)
                       (scanstring (drop 4 rest)))
             else
               (case backslash esc of
                  None \<Rightarrow> Inl JSONDecodeError
                | Some ch \<Rightarrow> scan_cons (Some ch) (scanstring rest)))
      else if (of_char c :: nat) < 32 then Inl JSONDecodeError
      else scan_cons (Some c) (scanstring cs))"

text \<open>
  \<^verbatim>\<open>NUMBER_RE.match\<close>: the integer part \<^verbatim>\<open>-?(?:0|[1-9]\d*)\<close> and what follows it; then the
  fraction \<^verbatim>\<open>\.\d+\<close> and the exponent \<^verbatim>\<open>[eE][-+]?\d+\<close>, each with what follows it, empty when
  there is none.
\<close>

definition match_integer :: "string \<Rightarrow> (string \<times> string) option" where
  "match_integer s =
     (let sign = (if take 1 s = ''-'' then ''-'' else []);
          t = drop (length sign) s
      in case t of
           [] \<Rightarrow> None
         | c # cs \<Rightarrow>
             if c = CHR ''0'' then Some (sign @ ''0'', cs)
             else if is_digit c then Some (sign @ takeWhile is_digit t, dropWhile is_digit t)
             else None)"

definition match_frac :: "string \<Rightarrow> string \<times> string" where
  "match_frac s =
     (case s of
        c # d # ds \<Rightarrow>
          if c = CHR ''.'' \<and> is_digit d
          then (c # takeWhile is_digit (d # ds), dropWhile is_digit (d # ds)) else ([], s)
      | _ \<Rightarrow> ([], s))"

definition match_exp :: "string \<Rightarrow> string \<times> string" where
  "match_exp s =
     (case s of
        c # d # ds \<Rightarrow>
          if (c = CHR ''e'' \<or> c = CHR ''E'') \<and> is_digit d
          then (c # takeWhile is_digit (d # ds), dropWhile is_digit (d # ds))
          else if (c = CHR ''e'' \<or> c = CHR ''E'') \<and> is_sign d \<and> ds \<noteq> [] \<and> is_digit (hd ds)
          then (c # d # takeWhile is_digit ds, dropWhile is_digit ds)
          else ([], s)
      | _ \<Rightarrow> ([], s))"

text \<open>
  The number at the start of the text, if there is one, and what follows it: an \<^verbatim>\<open>int\<close> when the
  literal has neither fraction nor exponent, else the \<^verbatim>\<open>float\<close> of the literal, which is \<open>None\<close>
  when that float is not embedded.
\<close>

definition match_number :: "string \<Rightarrow> (pyval option \<times> string) option" where
  "match_number s =
     (case match_integer s of
        None \<Rightarrow> None
      | Some (integer, after) \<Rightarrow>
          (case match_frac after of (frac, after1) \<Rightarrow>
          (case match_exp after1 of (ex, after2) \<Rightarrow>
             if frac = [] \<and> ex = [] then Some (Some (PInt (int_of_literal integer)), after)
             else Some (map_option (\<lambda>r. PFloat (PyFloat r)) (float_of_literal (integer @ frac @ ex)),
                        after2))))"

text \<open>\<^verbatim>\<open>dict(pairs)\<close>\<close>

definition dict_of_pairs :: "('k \<times> 'v) list \<Rightarrow> ('k \<times> 'v) list" where
  "dict_of_pairs pairs = foldl (\<lambda>d (k, v). AList.update k v d) [] pairs"

text \<open>The list and the dictionary of values that are all embedded.\<close>

definition all_some :: "'a option list \<Rightarrow> 'a list option" where
  "all_some xs = (if list_all (\<lambda>x. x \<noteq> None) xs then Some (map the xs) else None)"

definition list_value :: "pyval option list \<Rightarrow> pyval option" where
  "list_value vs = map_option PList (all_some vs)"

definition dict_value :: "(string option \<times> pyval option) list \<Rightarrow> pyval option" where
  "dict_value pairs =
     (case (all_some (map fst pairs), all_some (map snd pairs)) of
        (Some ks, Some vs) \<Rightarrow> Some (PDict (dict_of_pairs (zip (map PStr ks) vs)))
      | _ \<Rightarrow> None)"

text \<open>
  \<^verbatim>\<open>scan_once\<close>, \<^verbatim>\<open>JSONArray\<close> and \<^verbatim>\<open>JSONObject\<close> on the text that is left, each returning the value
  and what follows it. The value is \<open>None\<close> when the text is JSON that \<^verbatim>\<open>json.loads\<close> accepts but
  a part of its value is not embedded: a float outside the embedded ones, the constants
  \<^verbatim>\<open>NaN\<close>, \<^verbatim>\<open>Infinity\<close> and \<^verbatim>\<open>-Infinity\<close>, a character above U+00FF. The text is read to
  its end all the same, so that an error after such a part is found. The first argument bounds
  the depth of the calls; \<open>json_loads\<close> gives more than the text can use, since every value and
  every item consumes a character.
\<close>

fun scan_once :: "nat \<Rightarrow> string \<Rightarrow> error + pyval option \<times> string"
  and array_loop :: "nat \<Rightarrow> pyval option list \<Rightarrow> string \<Rightarrow> error + pyval option \<times> string"
  and object_loop ::
    "nat \<Rightarrow> (string option \<times> pyval option) list \<Rightarrow> string \<Rightarrow> error + pyval option \<times> string" where
  "scan_once 0 s = Inl Unmodelled"
| "scan_once (Suc n) s =
     (case s of
        [] \<Rightarrow> Inl JSONDecodeError
      | c # cs \<Rightarrow>
          if c = CHR 0x22 then
            (case scanstring cs of
               Inl err \<Rightarrow> Inl err
             | Inr (str, after) \<Rightarrow> Inr (map_option PStr str, after))
          else if c = CHR ''{'' then
            (let t = (if take 1 cs = [CHR 0x22] then cs else skip_ws cs)
             in if take 1 t = ''}'' then Inr (Some (PDict []), drop 1 t)
                else if take 1 t \<noteq> [CHR 0x22] then Inl JSONDecodeError
                else object_loop n [] (drop 1 t))
          else if c = CHR ''['' then
            (if take 1 (skip_ws cs) = '']'' then Inr (Some (PList []), drop 1 (skip_ws cs))
             else array_loop n [] (skip_ws cs))
          else if take 4 s = ''null'' then Inr (Some PNone, drop 4 s)
          else if take 4 s = ''true'' then Inr (Some (PBool True), drop 4 s)
          else if take 5 s = ''false'' then Inr (Some (PBool False), drop 5 s)
          else if take 3 s = ''NaN'' then Inr (None, drop 3 s)
          else if take 8 s = ''Infinity'' then Inr (None, drop 8 s)
          else if take 9 s = ''-Infinity'' then Inr (None, drop 9 s)
          else (case match_number s of None \<Rightarrow> Inl JSONDecodeError | Some r \<Rightarrow> Inr r))"
| "array_loop 0 values s = Inl Unmodelled"
| "array_loop (Suc n) values s =
     (case scan_once n s of
        Inl err \<Rightarrow> Inl err
      | Inr (v, after) \<Rightarrow>
          (let t = skip_ws after
           in if take 1 t = '']'' then Inr (list_value (values @ [v]), drop 1 t)
              else if take 1 t \<noteq> '','' then Inl JSONDecodeError
              else array_loop n (values @ [v]) (skip_ws (drop 1 t))))"
| "object_loop 0 pairs s = Inl Unmodelled"
| "object_loop (Suc n) pairs s =
     (case scanstring s of
        Inl err \<Rightarrow> Inl err
      | Inr (key, after) \<Rightarrow>
          (let t = (if take 1 after = '':'' then after else skip_ws after)
           in if take 1 t \<noteq> '':'' then Inl JSONDecodeError
              else
                (case scan_once n (skip_ws (drop 1 t)) of
                   Inl err \<Rightarrow> Inl err
                 | Inr (v, after') \<Rightarrow>
                     (let u = skip_ws after'
                      in if take 1 u = ''}''
                         then Inr (dict_value (pairs @ [(key, v)]), drop 1 u)
                         else if take 1 u \<noteq> '','' then Inl JSONDecodeError
                         else if take 1 (skip_ws (drop 1 u)) \<noteq> [CHR 0x22] then Inl JSONDecodeError
                         else object_loop n (pairs @ [(key, v)])
                                (drop 1 (skip_ws (drop 1 u)))))))"

text \<open>
  \<^verbatim>\<open>json.loads(s)\<close>: \<^verbatim>\<open>JSONDecoder.decode\<close>. A text that is valid JSON with a value that is not
  embedded is answered by \<open>Unmodelled\<close>; a text that is not valid JSON always by
  \<open>JSONDecodeError\<close>.
\<close>

definition json_loads :: "string \<Rightarrow> error + pyval" where
  "json_loads s =
     (case scan_once (2 * length s + 2) (skip_ws s) of
        Inl err \<Rightarrow> Inl err
      | Inr (obj, after) \<Rightarrow>
          if skip_ws after \<noteq> [] then Inl JSONDecodeError
          else (case obj of None \<Rightarrow> Inl Unmodelled | Some v \<Rightarrow> Inr v))"

subsection \<open>pydantic-settings: \<^verbatim>\<open>ConfigLocation\<close> and \<^verbatim>\<open>Config\<close>\<close>

text \<open>
  The coercion of a string to the type of a field. For \<^verbatim>\<open>bool\<close> pydantic documents the
  strings it takes. For \<^verbatim>\<open>int\<close> it takes a sign and digits, for \<^verbatim>\<open>float\<close> a decimal literal; a
  string that is neither, and has nothing in it that pydantic might still accept (white space
  around the number, underscores between digits, \<^verbatim>\<open>inf\<close> and \<^verbatim>\<open>nan\<close>, a fraction for an \<^verbatim>\<open>int\<close>), is
  refused with \<^verbatim>\<open>ValidationError\<close>. What pydantic might still accept, and the floats that are not
  embedded, are answered by \<open>Unmodelled\<close>. An input that is no string only reaches the token.
\<close>

fun validate_str :: "pyval \<Rightarrow> error + string" where
  "validate_str (PStr s) = Inr s"
| "validate_str _ = Inl Unmodelled"

fun validate_bool :: "pyval \<Rightarrow> error + bool" where
  "validate_bool (PStr s) =
     (if s = ''0'' \<or> lower s \<in> set [''f'', ''n'', ''no'', ''off'', ''false''] then Inr False
      else if s = ''1'' \<or> lower s \<in> set [''t'', ''y'', ''on'', ''yes'', ''true''] then Inr True
      else Inl ValidationError)"
| "validate_bool _ = Inl Unmodelled"

definition padded :: "string \<Rightarrow> bool" where
  "padded s \<longleftrightarrow> list_ex (\<lambda>c. isspace c \<or> c = CHR ''_'') s"

fun validate_int :: "pyval \<Rightarrow> error + int" where
  "validate_int (PStr s) =
     (if unsigned s \<noteq> [] \<and> list_all is_digit (unsigned s) then Inr (int_of_literal s)
      else if padded s \<or> float_parts s \<noteq> None then Inl Unmodelled
      else Inl ValidationError)"
| "validate_int _ = Inl Unmodelled"

fun validate_float :: "pyval \<Rightarrow> error + pyfloat" where
  "validate_float (PStr s) =
     (if float_repr_ok s then Inr (PyFloat s)
      else
        (case float_parts s of
           Some p \<Rightarrow>
             (case float_of_parts p of Some r \<Rightarrow> Inr (PyFloat r) | None \<Rightarrow> Inl Unmodelled)
         | None \<Rightarrow>
             if padded s \<or> lower (unsigned s) \<in> set [''inf'', ''infinity'', ''nan'']
             then Inl Unmodelled else Inl ValidationError))"
| "validate_float _ = Inl Unmodelled"

text \<open>\<^verbatim>\<open>dict | None\<close>\<close>

fun validate_token :: "pyval \<Rightarrow> error + (pyval \<times> pyval) list option" where
  "validate_token (PDict kvs) = Inr (Some kvs)"
| "validate_token PNone = Inr None"
| "validate_token (PObj ty) = Inl Unmodelled"
| "validate_token _ = Inl ValidationError"

text \<open>
  The environment as pydantic-settings reads it, the names in lower case. A field is taken
  from the keyword argument if there is one, else from the environment variable if there is
  one, else it is the declared default; \<^verbatim>\<open>BaseSettings\<close> validates the defaults too, which only
  changes the \<^verbatim>\<open>30\<close> of \<^verbatim>\<open>token_lock_timeout\<close> into \<^verbatim>\<open>30.0\<close>.
\<close>

type_synonym environment = "string \<rightharpoonup> string"

definition field ::
  "environment \<Rightarrow> pyval pydict \<Rightarrow> string \<Rightarrow> (pyval \<Rightarrow> error + 'a) \<Rightarrow> 'a \<Rightarrow> error + 'a" where
  "field env kwargs name validate dflt =
     (case map_of kwargs name of
        Some v \<Rightarrow> validate v
      | None \<Rightarrow> (case env name of Some s \<Rightarrow> validate (PStr s) | None \<Rightarrow> Inr dflt))"

text \<open>
  \<^verbatim>\<open>deep_update(mapping, updating_mapping)\<close> of pydantic-settings, which merges what the sources
  give: a dictionary under a key that holds a dictionary is merged into it, every other value
  replaces what is there.
\<close>

fun deep_update :: "(pyval \<times> pyval) list \<Rightarrow> (pyval \<times> pyval) list \<Rightarrow> (pyval \<times> pyval) list" where
  "deep_update mapping [] = mapping"
| "deep_update mapping ((k, v) # rest) =
     deep_update
       (case v of
          PDict new \<Rightarrow>
            (case map_of mapping k of
               Some (PDict old) \<Rightarrow> AList.update k (PDict (deep_update old new)) mapping
             | _ \<Rightarrow> AList.update k v mapping)
        | _ \<Rightarrow> AList.update k v mapping)
       rest"

text \<open>
  The field \<^verbatim>\<open>auth_token\<close>. The environment variable is decoded as JSON; \<^verbatim>\<open>null\<close> counts as no
  variable, and a value that is not JSON is kept as the string, which the field then refuses
  unless a keyword argument replaces it. A dictionary from the environment is merged with a
  dictionary given as keyword argument, whose items win.
\<close>

definition token_field ::
  "environment \<Rightarrow> pyval pydict \<Rightarrow> error + (pyval \<times> pyval) list option" where
  "token_field env kwargs =
     (case map_of kwargs ''auth_token'' of
        Some (PDict kw) \<Rightarrow>
          (case env ''auth_token'' of
             None \<Rightarrow> Inr (Some kw)
           | Some s \<Rightarrow>
               (case json_loads s of
                  Inr (PDict ev) \<Rightarrow> Inr (Some (deep_update ev kw))
                | Inr _ \<Rightarrow> Inr (Some kw)
                | Inl err \<Rightarrow> if err = Unmodelled then Inl Unmodelled else Inr (Some kw)))
      | Some v \<Rightarrow> validate_token v
      | None \<Rightarrow>
          (case env ''auth_token'' of
             None \<Rightarrow> Inr (Some [])
           | Some s \<Rightarrow>
               (case json_loads s of
                  Inr PNone \<Rightarrow> Inr (Some [])
                | Inr v \<Rightarrow> validate_token v
                | Inl err \<Rightarrow> if err = Unmodelled then Inl Unmodelled else Inl ValidationError)))"

definition bind :: "error + 'a \<Rightarrow> ('a \<Rightarrow> error + 'b) \<Rightarrow> error + 'b" where
  "bind x f = (case x of Inl err \<Rightarrow> Inl err | Inr a \<Rightarrow> f a)"

record ConfigLocation =
  azul_config_location :: string
  token_refresh_path_lock :: string
  token_lock_timeout :: pyfloat

text \<open>
  \<^verbatim>\<open>ConfigLocation()\<close>. The defaults of the two paths are computed once, when the module is
  imported, from the home and the temporary directory; they are the first two arguments.
\<close>

definition ConfigLocation_init :: "string \<Rightarrow> string \<Rightarrow> environment \<Rightarrow> error + ConfigLocation" where
  "ConfigLocation_init home_ini tmp_lock env =
     bind (field env [] ''azul_config_location'' validate_str home_ini) (\<lambda>a.
     bind (field env [] ''token_refresh_path_lock'' validate_str tmp_lock) (\<lambda>b.
     bind (field env [] ''token_lock_timeout'' validate_float (PyFloat ''30.0'')) (\<lambda>c.
     Inr \<lparr>azul_config_location = a, token_refresh_path_lock = b, token_lock_timeout = c\<rparr>)))"

record Config =
  azul_url :: string
  oidc_url :: string
  auth_type :: string
  auth_scopes :: string
  auth_client_id :: string
  auth_client_secret :: string
  azul_verify_ssl :: bool
  auth_token :: "(pyval \<times> pyval) list option"
  auth_token_time :: int
  max_timeout :: pyfloat
  oidc_timeout :: pyfloat

definition field_names :: "string list" where
  "field_names = [''azul_url'', ''oidc_url'', ''auth_type'', ''auth_scopes'', ''auth_client_id'',
     ''auth_client_secret'', ''azul_verify_ssl'', ''auth_token'', ''auth_token_time'',
     ''max_timeout'', ''oidc_timeout'']"

text \<open>The declared defaults.\<close>

definition Config_defaults :: Config where
  "Config_defaults =
     \<lparr>azul_url = ''http://localhost'',
      oidc_url = ''http://keycloak/.well-known/openid-configuration'',
      auth_type = ''callback'',
      auth_scopes = [],
      auth_client_id = ''azul-web'',
      auth_client_secret = [],
      azul_verify_ssl = True,
      auth_token = Some [],
      auth_token_time = 0,
      max_timeout = PyFloat ''300.0'',
      oidc_timeout = PyFloat ''10.0''\<rparr>"

text \<open>The validator \<^verbatim>\<open>no_trailing_slash\<close> of \<^verbatim>\<open>azul_url\<close>, after the coercion to \<^verbatim>\<open>str\<close>.\<close>

definition no_trailing_slash :: "pyval \<Rightarrow> error + string" where
  "no_trailing_slash v = bind (validate_str v) (\<lambda>s. Inr (rstrip_slash s))"

text \<open>
  \<^verbatim>\<open>Config(**kwargs)\<close>. A keyword that is no field is refused (\<^verbatim>\<open>extra='forbid'\<close>); one that
  starts with an underscore may be a parameter of \<^verbatim>\<open>BaseSettings.__init__\<close> and is outside the
  embedding.
\<close>

definition Config_init :: "environment \<Rightarrow> pyval pydict \<Rightarrow> error + Config" where
  "Config_init env kwargs =
     (if \<exists>k \<in> set (map fst kwargs). take 1 k = ''_'' then Inl Unmodelled
      else if \<exists>k \<in> set (map fst kwargs). k \<notin> set field_names then Inl ValidationError
      else
        bind (field env kwargs ''azul_url'' no_trailing_slash (azul_url Config_defaults)) (\<lambda>a.
        bind (field env kwargs ''oidc_url'' validate_str (oidc_url Config_defaults)) (\<lambda>b.
        bind (field env kwargs ''auth_type'' validate_str (auth_type Config_defaults)) (\<lambda>c.
        bind (field env kwargs ''auth_scopes'' validate_str (auth_scopes Config_defaults)) (\<lambda>d.
        bind (field env kwargs ''auth_client_id'' validate_str (auth_client_id Config_defaults)) (\<lambda>e.
        bind (field env kwargs ''auth_client_secret'' validate_str
               (auth_client_secret Config_defaults)) (\<lambda>f.
        bind (field env kwargs ''azul_verify_ssl'' validate_bool
               (azul_verify_ssl Config_defaults)) (\<lambda>g.
        bind (token_field env kwargs) (\<lambda>h.
        bind (field env kwargs ''auth_token_time'' validate_int
               (auth_token_time Config_defaults)) (\<lambda>i.
        bind (field env kwargs ''max_timeout'' validate_float (max_timeout Config_defaults)) (\<lambda>j.
        bind (field env kwargs ''oidc_timeout'' validate_float (oidc_timeout Config_defaults)) (\<lambda>k.
        Inr \<lparr>azul_url = a, oidc_url = b, auth_type = c, auth_scopes = d, auth_client_id = e,
             auth_client_secret = f, azul_verify_ssl = g, auth_token = h, auth_token_time = i,
             max_timeout = j, oidc_timeout = k\<rparr>))))))))))))"

text \<open>The token as a Python value.\<close>

definition token_value :: "(pyval \<times> pyval) list option \<Rightarrow> pyval" where
  "token_value t = (case t of None \<Rightarrow> PNone | Some kvs \<Rightarrow> PDict kvs)"

text \<open>
  \<^verbatim>\<open>tmp = self.model_dump()\<close> with \<^verbatim>\<open>tmp["auth_token"]\<close> replaced by the JSON string \<open>js\<close>, every
  value as \<^verbatim>\<open>str\<close> prints it (\<^verbatim>\<open>read_dict\<close> applies \<^verbatim>\<open>str\<close> to the values).
\<close>

definition model_dump_str :: "Config \<Rightarrow> string \<Rightarrow> string pydict" where
  "model_dump_str self js =
     [(''azul_url'', azul_url self),
      (''oidc_url'', oidc_url self),
      (''auth_type'', auth_type self),
      (''auth_scopes'', auth_scopes self),
      (''auth_client_id'', auth_client_id self),
      (''auth_client_secret'', auth_client_secret self),
      (''azul_verify_ssl'', str_bool (azul_verify_ssl self)),
      (''auth_token'', js),
      (''auth_token_time'', str_int (auth_token_time self)),
      (''max_timeout'', str_float (max_timeout self)),
      (''oidc_timeout'', str_float (oidc_timeout self))]"

subsection \<open>The process and the lock\<close>

text \<open>
  What the module sees and changes: the environment, the files, the global \<^verbatim>\<open>config_section\<close>,
  the defaults of the two paths of \<^verbatim>\<open>ConfigLocation\<close> and the global \<^verbatim>\<open>config_location\<close> (fixed
  when the module is imported), the counter of the lock \<^verbatim>\<open>_lock_azul_config\<close>, whether another
  process holds the lock file, and what was printed to \<^verbatim>\<open>sys.stderr\<close>.
\<close>

record process =
  environ :: environment
  files :: "string \<rightharpoonup> string"
  config_section :: string
  default_config_location :: string
  default_path_lock :: string
  config_location :: ConfigLocation
  lock_counter :: nat
  lock_held_elsewhere :: bool
  stderr :: "string list"

text \<open>\<^verbatim>\<open>ConfigLocation()\<close> in a process.\<close>

definition new_ConfigLocation :: "process \<Rightarrow> error + ConfigLocation" where
  "new_ConfigLocation st =
     ConfigLocation_init (default_config_location st) (default_path_lock st) (environ st)"




text \<open>The file of the lock: \<^verbatim>\<open>_lock_azul_config.lock_file\<close>, fixed at the import.\<close>

definition lock_file :: "process \<Rightarrow> string" where
  "lock_file st = token_refresh_path_lock (config_location st)"

text \<open>
  \<^verbatim>\<open>FileLock.acquire\<close> and \<^verbatim>\<open>release\<close>: the counter goes up at every acquisition; the lock file is
  only asked for when the counter was zero, and given up when it is zero again. Asking for it
  opens the lock file, which creates it or empties it, whether the lock is obtained or not.
  When another process holds the lock file for longer than the timeout, \<^verbatim>\<open>acquire\<close> raises
  \<^verbatim>\<open>Timeout\<close>. On POSIX \<^verbatim>\<open>release\<close> leaves the file where it is.
\<close>

definition acquire :: "process \<Rightarrow> (error + unit) \<times> process" where
  "acquire st =
     (if lock_counter st > 0 then (Inr (), st\<lparr>lock_counter := lock_counter st + 1\<rparr>)
      else
        (case open_error (lock_file st) of
           Some err \<Rightarrow> (Inl err, st)
         | None \<Rightarrow>
             (let st1 = st\<lparr>files := (files st)(lock_file st \<mapsto> [])\<rparr>
              in if lock_held_elsewhere st then (Inl Timeout, st1)
                 else (Inr (), st1\<lparr>lock_counter := 1\<rparr>))))"

definition release :: "process \<Rightarrow> process" where
  "release st = (if lock_counter st > 0 then st\<lparr>lock_counter := lock_counter st - 1\<rparr> else st)"

text \<open>
  The decorator \<^verbatim>\<open>@_lock_azul_config\<close>: the body runs between \<^verbatim>\<open>acquire\<close> and \<^verbatim>\<open>release\<close>, and
  \<^verbatim>\<open>release\<close> runs whether the body returns or raises.
\<close>

definition locked ::
  "(process \<Rightarrow> (error + 'a) \<times> process) \<Rightarrow> process \<Rightarrow> (error + 'a) \<times> process" where
  "locked body st =
     (case acquire st of
        (Inl err, st1) \<Rightarrow> (Inl err, st1)
      | (Inr u, st1) \<Rightarrow> (case body st1 of (r, st2) \<Rightarrow> (r, release st2)))"

definition print_stderr :: "string \<Rightarrow> process \<Rightarrow> process" where
  "print_stderr msg st = st\<lparr>stderr := stderr st @ [msg]\<rparr>"

subsection \<open>\<^verbatim>\<open>Config.save\<close>, \<^verbatim>\<open>get_config\<close> and \<^verbatim>\<open>clear_auth\<close>\<close>

text \<open>\<^verbatim>\<open>with open(path, "w") as configfile: cfg.write(configfile)\<close>\<close>

definition write_file :: "string \<Rightarrow> string \<Rightarrow> process \<Rightarrow> (error + unit) \<times> process" where
  "write_file path text st =
     (case open_error path of
        Some err \<Rightarrow> (Inl err, st)
      | None \<Rightarrow> (Inr (), st\<lparr>files := (files st)(path \<mapsto> text)\<rparr>))"

definition save_body :: "Config \<Rightarrow> process \<Rightarrow> (error + unit) \<times> process" where
  "save_body self st =
     (case json_dumps (token_value (auth_token self)) of
        Inl err \<Rightarrow> (Inl err, st)
      | Inr js \<Rightarrow>
     (case new_ConfigLocation st of
        Inl err \<Rightarrow> (Inl err, st)
      | Inr loc \<Rightarrow>
     (case cfg_read (files st) (azul_config_location loc) of
        Inl err \<Rightarrow> (Inl err, st)
      | Inr cfg \<Rightarrow>
     (case cp_setitem cfg (config_section st) (model_dump_str self js) of
        Inl err \<Rightarrow> (Inl err, st)
      | Inr cfg' \<Rightarrow>
     (case new_ConfigLocation st of
        Inl err \<Rightarrow> (Inl err, st)
      | Inr loc' \<Rightarrow> write_file (azul_config_location loc') (cfg_write cfg') st)))))"

definition save :: "Config \<Rightarrow> process \<Rightarrow> (error + unit) \<times> process" where
  "save self = locked (save_body self)"

text \<open>
  The dictionary \<^verbatim>\<open>conf\<close> of \<^verbatim>\<open>get_config\<close> after the \<^verbatim>\<open>try\<close>: the section, or nothing for the
  section \<^verbatim>\<open>default\<close> when it is missing (the flag says so), or the exception.
\<close>

definition section_or_default :: "configparser \<Rightarrow> string \<Rightarrow> error + bool \<times> string pydict" where
  "section_or_default tmp section =
     (case section_as_dict tmp section of
        Inr conf \<Rightarrow> Inr (False, conf)
      | Inl err \<Rightarrow>
          if err = KeyError
          then (if section = ''default'' then Inr (True, []) else Inl (InvalidSection section))
          else Inl err)"

text \<open>\<^verbatim>\<open>if conf.get("auth_token"): conf["auth_token"] = json.loads(conf["auth_token"])\<close>\<close>

definition decode_token :: "string pydict \<Rightarrow> error + pyval pydict" where
  "decode_token conf =
     (case map_of conf ''auth_token'' of
        None \<Rightarrow> Inr (map (\<lambda>(k, v). (k, PStr v)) conf)
      | Some js \<Rightarrow>
          if js = [] then Inr (map (\<lambda>(k, v). (k, PStr v)) conf)
          else (case json_loads js of
                  Inl err \<Rightarrow> Inl err
                | Inr tok \<Rightarrow>
                    Inr (AList.update ''auth_token'' tok (map (\<lambda>(k, v). (k, PStr v)) conf))))"

text \<open>
  The two parts of \<^verbatim>\<open>get_config\<close> after \<^verbatim>\<open>location\<close> is known. First the block under
  \<^verbatim>\<open>if not os.path.exists(location)\<close>, which writes the defaults.
\<close>

definition generate_default :: "string \<Rightarrow> process \<Rightarrow> (error + unit) \<times> process" where
  "generate_default location st =
     (if \<not> path_exists (files st) location then
        (let st1 = print_stderr ''You will likely need to edit this config.''
                     (print_stderr
                        (''ERROR - no config found - generating default at '' @ location) st)
         in case Config_init (environ st1) [] of
              Inl err \<Rightarrow> (Inl err, st1)
            | Inr conf \<Rightarrow> save conf st1)
      else (Inr (), st))"

text \<open>Then the rest: the file is read and the record is made from the active section.\<close>

definition load_section :: "string \<Rightarrow> process \<Rightarrow> (error + Config) \<times> process" where
  "load_section location st =
     (let st3 = print_stderr
                  (''Loading config ['' @ config_section st @ ''] from '' @ location) st in
      case cfg_read (files st3) location of
        Inl err \<Rightarrow> (Inl err, st3)
      | Inr tmp \<Rightarrow>
     (case section_or_default tmp (config_section st3) of
        Inl err \<Rightarrow> (Inl err, st3)
      | Inr (missing, conf) \<Rightarrow>
     (let st4 = (if missing
                 then print_stderr (''Config section ['' @ config_section st3
                                     @ ''] is invalid, generating defaults'') st3
                 else st3) in
      case decode_token conf of
        Inl err \<Rightarrow> (Inl err, st4)
      | Inr kwargs \<Rightarrow>
     (case Config_init (environ st4) kwargs of
        Inl err \<Rightarrow> (Inl err, st4)
      | Inr config \<Rightarrow>
          (Inr config,
           print_stderr (''using Azul API at '' @ azul_url config @ [NL]) st4)))))"

definition get_config_body :: "process \<Rightarrow> (error + Config) \<times> process" where
  "get_config_body st =
     (case new_ConfigLocation st of
        Inl err \<Rightarrow> (Inl err, st)
      | Inr loc \<Rightarrow>
          (case generate_default (azul_config_location loc) st of
             (Inl err, st2) \<Rightarrow> (Inl err, st2)
           | (Inr u, st2) \<Rightarrow> load_section (azul_config_location loc) st2))"

definition get_config :: "process \<Rightarrow> (error + Config) \<times> process" where
  "get_config = locked get_config_body"

definition clear_auth_body :: "process \<Rightarrow> (error + unit) \<times> process" where
  "clear_auth_body st =
     (case get_config st of
        (Inl err, st1) \<Rightarrow> (Inl err, st1)
      | (Inr conf, st1) \<Rightarrow> save (conf\<lparr>auth_token := Some [], auth_token_time := 0\<rparr>) st1)"

definition clear_auth :: "process \<Rightarrow> (error + unit) \<times> process" where
  "clear_auth = locked clear_auth_body"

section \<open>Facts about the libraries\<close>

subsection \<open>The exceptions they raise\<close>

lemma scan_cons_error: "scan_cons ch r = Inl err \<Longrightarrow> r = Inl err"
  by (auto simp: scan_cons_def split: sum.splits prod.splits)

lemma scanstring_error: "scanstring s = Inl err \<Longrightarrow> err = JSONDecodeError"
  by (induction s arbitrary: err rule: scanstring.induct)
     (auto split: if_splits list.splits option.splits dest!: scan_cons_error)

lemma scan_error:
  "(\<forall>s err. scan_once n s = Inl err \<longrightarrow> err = JSONDecodeError \<or> err = Unmodelled)
   \<and> (\<forall>vs s err. array_loop n vs s = Inl err \<longrightarrow> err = JSONDecodeError \<or> err = Unmodelled)
   \<and> (\<forall>ps s err. object_loop n ps s = Inl err \<longrightarrow> err = JSONDecodeError \<or> err = Unmodelled)"
proof (induction n)
  case 0
  show ?case by simp
next
  case (Suc n)
  have a: "scan_once (Suc n) s = Inl err \<Longrightarrow> err = JSONDecodeError \<or> err = Unmodelled" for s err
    using Suc scanstring_error
    by (auto simp: Let_def split: list.splits if_splits sum.splits prod.splits option.splits)
  have b: "array_loop (Suc n) vs s = Inl err \<Longrightarrow> err = JSONDecodeError \<or> err = Unmodelled"
    for vs s err
    using Suc by (auto simp: Let_def split: if_splits sum.splits prod.splits)
  have c: "object_loop (Suc n) ps s = Inl err \<Longrightarrow> err = JSONDecodeError \<or> err = Unmodelled"
    for ps s err
    using Suc scanstring_error
    by (auto simp: Let_def split: if_splits sum.splits prod.splits)
  show ?case using a b c by blast
qed

lemma scan_once_error: "scan_once n s = Inl err \<Longrightarrow> err = JSONDecodeError \<or> err = Unmodelled"
  using scan_error [of n] by blast

lemma json_loads_error:
  assumes "json_loads s = Inl err"
  shows "err = JSONDecodeError \<or> err = Unmodelled"
proof -
  define r where "r = scan_once (2 * length s + 2) (skip_ws s)"
  have "r = Inl e \<Longrightarrow> e = JSONDecodeError \<or> e = Unmodelled" for e
    unfolding r_def by (rule scan_once_error)
  moreover have "(case r of Inl e \<Rightarrow> Inl e
      | Inr (obj, after) \<Rightarrow>
          if skip_ws after \<noteq> [] then Inl JSONDecodeError
          else (case obj of None \<Rightarrow> Inl Unmodelled | Some v \<Rightarrow> Inr v)) = Inl err"
    using assms unfolding json_loads_def r_def .
  ultimately show ?thesis
    by (auto split: sum.splits prod.splits if_splits option.splits)
qed

lemma dumps_key_error: "dumps_key k = Inl err \<Longrightarrow> err = TypeError"
  by (cases k) auto

lemma json_dumps_error:
  "(json_dumps v = Inl err \<longrightarrow> err = TypeError)"
  "(dumps_list b vs = Inl err \<longrightarrow> err = TypeError)"
  "(dumps_dict b kvs = Inl err \<longrightarrow> err = TypeError)"
  by (induction v and b vs and b kvs arbitrary: err and err and err
      rule: json_dumps_dumps_list_dumps_dict.induct)
     (auto split: sum.splits dest: dumps_key_error)

lemma json_dumps_TypeError: "json_dumps v = Inl err \<Longrightarrow> err = TypeError"
  using json_dumps_error(1) by blast

lemma read_line_error: "read_line r line = Inl err \<Longrightarrow>
  err = MissingSectionHeaderError \<or> err = DuplicateSectionError \<or> err = DuplicateOptionError"
  by (auto simp: read_line_def Let_def split: if_splits option.splits prod.splits)

lemma read_lines_error: "read_lines r ls = Inl err \<Longrightarrow>
  err = MissingSectionHeaderError \<or> err = DuplicateSectionError \<or> err = DuplicateOptionError"
  by (induction ls arbitrary: r) (auto split: sum.splits dest: read_line_error)

lemma read_text_error: "read_text t = Inl err \<Longrightarrow>
  err = MissingSectionHeaderError \<or> err = DuplicateSectionError \<or> err = DuplicateOptionError
  \<or> err = ParsingError"
  by (auto simp: read_text_def split: sum.splits if_splits dest: read_lines_error)

lemma open_error_cases: "open_error p = Some err \<Longrightarrow> err = FileNotFoundError \<or> err = ValueError"
  by (auto simp: open_error_def split: if_splits)

lemma cfg_read_error: "cfg_read fs p = Inl err \<Longrightarrow>
  err = MissingSectionHeaderError \<or> err = DuplicateSectionError \<or> err = DuplicateOptionError
  \<or> err = ParsingError \<or> err = ValueError"
  by (auto simp: cfg_read_def split: option.splits if_splits
      dest: read_text_error open_error_cases)

lemma cp_set_error: "cp_set cfg s k v = Inl err \<Longrightarrow> err = ValueError \<or> err = NoSectionError"
  by (auto simp: cp_set_def before_set_def Let_def split: sum.splits if_splits)

lemma read_dict_keys_error: "read_dict_keys cfg s added keys = Inl err \<Longrightarrow>
  err = ValueError \<or> err = NoSectionError \<or> err = DuplicateOptionError"
  by (induction cfg s added keys rule: read_dict_keys.induct)
     (auto split: sum.splits if_splits dest: cp_set_error)

lemma cp_setitem_error: "cp_setitem cfg s keys = Inl err \<Longrightarrow>
  err = ValueError \<or> err = NoSectionError \<or> err = DuplicateOptionError"
  by (auto simp: cp_setitem_def read_dict_def dest: read_dict_keys_error)

lemma interpolate_some_error: "interpolate_some depth m rest = Inl err \<Longrightarrow>
  err = InterpolationDepthError \<or> err = InterpolationSyntaxError
  \<or> err = InterpolationMissingOptionError"
proof (induction depth m rest arbitrary: err rule: interpolate_some.induct)
  case (1 depth m rest)
  show ?case
    using "1.prems" "1.IH" unfolding interpolate_some.simps [of depth m rest]
    by (auto split: if_splits list.splits sum.splits option.splits prod.splits)
qed

lemma proxy_items_error: "proxy_items cfg s ks = Inl err \<Longrightarrow> err \<noteq> Timeout"
  by (induction ks arbitrary: err)
     (auto simp: proxy_getitem_def cp_get_def unify_values_def before_get_def
           split: sum.splits if_splits option.splits dest: interpolate_some_error)

lemma section_or_default_error: "section_or_default cfg s = Inl err \<Longrightarrow> err \<noteq> Timeout"
  by (auto simp: section_or_default_def section_as_dict_def
           split: sum.splits if_splits dest: proxy_items_error)

lemma decode_token_error: "decode_token conf = Inl err \<Longrightarrow> err \<noteq> Timeout"
  by (auto simp: decode_token_def split: option.splits if_splits sum.splits dest: json_loads_error)

lemma validate_error:
  "validate_str v = Inl err \<Longrightarrow> err \<noteq> Timeout"
  "validate_bool v = Inl err \<Longrightarrow> err \<noteq> Timeout"
  "validate_int v = Inl err \<Longrightarrow> err \<noteq> Timeout"
  "validate_float v = Inl err \<Longrightarrow> err \<noteq> Timeout"
  "validate_token v = Inl err \<Longrightarrow> err \<noteq> Timeout"
  "no_trailing_slash v = Inl err \<Longrightarrow> err \<noteq> Timeout"
  by (cases v; auto simp: no_trailing_slash_def bind_def split: if_splits option.splits)+

lemma field_error:
  assumes "field env kwargs name validate dflt = Inl err"
    and "\<And>v err. validate v = Inl err \<Longrightarrow> err \<noteq> Timeout"
  shows "err \<noteq> Timeout"
  using assms by (auto simp: field_def split: option.splits)

lemma token_field_error: "token_field env kwargs = Inl err \<Longrightarrow> err \<noteq> Timeout"
  by (auto simp: token_field_def
           split: option.splits sum.splits if_splits pyval.splits dest: validate_error)

lemma bind_error:
  assumes "bind x f = Inl err"
    and "x = Inl err \<Longrightarrow> P"
    and "\<And>a. x = Inr a \<Longrightarrow> f a = Inl err \<Longrightarrow> P"
  shows P
  using assms by (cases x) (auto simp: bind_def)

lemma ConfigLocation_init_error: "ConfigLocation_init ini lck env = Inl err \<Longrightarrow> err \<noteq> Timeout"
  unfolding ConfigLocation_init_def
  by (elim bind_error) (auto dest: field_error validate_error)

lemma new_ConfigLocation_error: "new_ConfigLocation st = Inl err \<Longrightarrow> err \<noteq> Timeout"
  unfolding new_ConfigLocation_def by (rule ConfigLocation_init_error)

lemma Config_init_error: "Config_init env kwargs = Inl err \<Longrightarrow> err \<noteq> Timeout"
  unfolding Config_init_def
  by (simp split: if_splits; elim bind_error)
     (auto dest: field_error validate_error token_field_error)

subsection \<open>What the operations leave alone\<close>

text \<open>
  The path that a load or a save resolves: \<^verbatim>\<open>ConfigLocation().azul_config_location\<close>, from the
  environment as it is at the call.
\<close>

definition config_path :: "process \<Rightarrow> string option" where
  "config_path st =
     (case new_ConfigLocation st of Inl err \<Rightarrow> None | Inr loc \<Rightarrow> Some (azul_config_location loc))"

text \<open>
  Two states of the process that differ at most in the files at some paths and in what was
  printed. The paths that an operation may touch are that of the lock file and the one that
  \<^verbatim>\<open>ConfigLocation()\<close> resolves.
\<close>

definition unchanged_but :: "string set \<Rightarrow> process \<Rightarrow> process \<Rightarrow> bool" where
  "unchanged_but ps st st' \<longleftrightarrow>
     environ st' = environ st \<and> config_section st' = config_section st
     \<and> default_config_location st' = default_config_location st
     \<and> default_path_lock st' = default_path_lock st
     \<and> config_location st' = config_location st
     \<and> lock_counter st' = lock_counter st \<and> lock_held_elsewhere st' = lock_held_elsewhere st
     \<and> (\<forall>q. q \<notin> ps \<longrightarrow> files st' q = files st q)"

definition touched :: "process \<Rightarrow> string set" where
  "touched st = insert (lock_file st) (set_option (config_path st))"

lemma unchanged_but_refl: "unchanged_but ps st st"
  by (simp add: unchanged_but_def)

lemma unchanged_but_trans:
  "unchanged_but ps st st' \<Longrightarrow> unchanged_but ps st' st'' \<Longrightarrow> unchanged_but ps st st''"
  by (simp add: unchanged_but_def)

lemma unchanged_but_print: "unchanged_but ps st (print_stderr msg st)"
  by (simp add: unchanged_but_def print_stderr_def)

lemma touched_unchanged: "unchanged_but ps st st' \<Longrightarrow> touched st' = touched st"
  by (simp add: unchanged_but_def touched_def config_path_def new_ConfigLocation_def lock_file_def)

lemma touched_counter [simp]: "touched (st\<lparr>lock_counter := n\<rparr>) = touched st"
  by (simp add: touched_def config_path_def new_ConfigLocation_def lock_file_def)

lemma touched_files [simp]: "touched (st\<lparr>files := fs\<rparr>) = touched st"
  by (simp add: touched_def config_path_def new_ConfigLocation_def lock_file_def)

lemma locked_unchanged:
  assumes "\<And>s. unchanged_but (touched s) s (snd (body s))"
  shows "unchanged_but (touched st) st (snd (locked body st))"
proof -
  have l: "lock_file st \<in> touched st"
    by (simp add: touched_def)
  have b: "unchanged_but (touched st) st (release (snd (body s)))"
    if "touched s = touched st" and "unchanged_but (touched st) st (s\<lparr>lock_counter := lock_counter st\<rparr>)"
      and "lock_counter s = lock_counter st + 1" for s
    using assms [of s] that by (auto simp: unchanged_but_def release_def)
  show ?thesis
  proof (cases "lock_counter st > 0")
    case True
    let ?s = "st\<lparr>lock_counter := lock_counter st + 1\<rparr>"
    have "snd (locked body st) = release (snd (body ?s))"
      using True by (simp add: locked_def acquire_def split: prod.splits)
    then show ?thesis
      using b [of ?s] by (simp add: unchanged_but_refl)
  next
    case False
    let ?s = "st\<lparr>files := (files st)(lock_file st \<mapsto> []), lock_counter := 1\<rparr>"
    have u: "unchanged_but (touched st) st (st\<lparr>files := (files st)(lock_file st \<mapsto> [])\<rparr>)"
      using l by (simp add: unchanged_but_def)
    consider err where "open_error (lock_file st) = Some err"
      | "open_error (lock_file st) = None" "lock_held_elsewhere st"
      | "open_error (lock_file st) = None" "\<not> lock_held_elsewhere st"
      by (cases "open_error (lock_file st)") auto
    then show ?thesis
    proof cases
      case 1
      then show ?thesis
        using False by (simp add: locked_def acquire_def unchanged_but_refl)
    next
      case 2
      then show ?thesis
        using False u by (simp add: locked_def acquire_def)
    next
      case 3
      then have "snd (locked body st) = release (snd (body ?s))"
        using False by (simp add: locked_def acquire_def split: prod.splits)
      then show ?thesis
        using b [of ?s] u False by simp
    qed
  qed
qed

lemma write_file_unchanged: "unchanged_but {path} s (snd (write_file path text s))"
  by (auto simp: write_file_def unchanged_but_def split: option.splits)

lemma save_body_unchanged: "unchanged_but (touched s) s (snd (save_body self s))"
proof -
  have "unchanged_but (touched s) s (snd (write_file (azul_config_location loc) content s))"
    if "new_ConfigLocation s = Inr loc" for loc content
    using that write_file_unchanged [of "azul_config_location loc" s content]
    by (auto simp: unchanged_but_def touched_def config_path_def)
  then show ?thesis
    by (auto simp: save_body_def unchanged_but_refl split: sum.splits)
qed

lemma save_unchanged: "unchanged_but (touched st) st (snd (save self st))"
  unfolding save_def by (rule locked_unchanged) (rule save_body_unchanged)

lemma generate_default_unchanged:
  "unchanged_but (touched s) s (snd (generate_default location s))"
proof -
  define s1 where "s1 = print_stderr ''You will likely need to edit this config.''
     (print_stderr (''ERROR - no config found - generating default at '' @ location) s)"
  have u1: "unchanged_but (touched s) s s1"
    unfolding s1_def by (meson unchanged_but_print unchanged_but_trans)
  have u2: "unchanged_but (touched s) s (snd (save conf s1))" for conf
    using u1 save_unchanged [of s1 conf] touched_unchanged [OF u1]
    by (auto intro: unchanged_but_trans)
  show ?thesis
    unfolding generate_default_def Let_def s1_def [symmetric]
    using u1 u2 by (auto simp: unchanged_but_refl split: sum.splits)
qed

lemma load_section_unchanged: "unchanged_but ps s (snd (load_section location s))"
  by (auto simp: load_section_def Let_def unchanged_but_def print_stderr_def
      split: sum.splits prod.splits)

lemma get_config_body_unchanged: "unchanged_but (touched s) s (snd (get_config_body s))"
proof (cases "new_ConfigLocation s")
  case (Inl err)
  then show ?thesis by (simp add: get_config_body_def unchanged_but_def)
next
  case (Inr loc)
  obtain r s2 where g: "generate_default (azul_config_location loc) s = (r, s2)"
    by (cases "generate_default (azul_config_location loc) s")
  have u1: "unchanged_but (touched s) s s2"
    using generate_default_unchanged [of s "azul_config_location loc"] g by simp
  have u2: "unchanged_but (touched s) s2 (snd (load_section (azul_config_location loc) s2))"
    by (rule load_section_unchanged)
  show ?thesis
    using Inr g u1 u2
    by (auto simp: get_config_body_def split: sum.splits intro: unchanged_but_trans)
qed

lemma get_config_unchanged: "unchanged_but (touched st) st (snd (get_config st))"
  unfolding get_config_def by (rule locked_unchanged) (rule get_config_body_unchanged)

lemma clear_auth_body_unchanged: "unchanged_but (touched s) s (snd (clear_auth_body s))"
proof -
  obtain r s1 where g: "get_config s = (r, s1)" by (cases "get_config s")
  have u1: "unchanged_but (touched s) s s1"
    using get_config_unchanged [of s] g by simp
  have u2: "unchanged_but (touched s) s1 (snd (save conf s1))" for conf
    using save_unchanged [of s1 conf] touched_unchanged [OF u1] by simp
  show ?thesis
    using g u1 u2 by (auto simp: clear_auth_body_def split: sum.splits intro: unchanged_but_trans)
qed

lemma clear_auth_unchanged: "unchanged_but (touched st) st (snd (clear_auth st))"
  unfolding clear_auth_def by (rule locked_unchanged) (rule clear_auth_body_unchanged)

subsection \<open>The lock inside the lock\<close>

lemma locked_no_timeout:
  assumes "lock_counter st > 0 \<or> \<not> lock_held_elsewhere st"
    and "\<And>s. lock_counter s > 0 \<Longrightarrow> fst (body s) \<noteq> Inl Timeout"
  shows "fst (locked body st) \<noteq> Inl Timeout"
  using assms(1) assms(2) [of "st\<lparr>lock_counter := lock_counter st + 1\<rparr>"]
    assms(2) [of "st\<lparr>files := (files st)(lock_file st \<mapsto> []), lock_counter := 1\<rparr>"]
  by (auto simp: locked_def acquire_def Let_def split: prod.splits option.splits
      dest: open_error_cases)

lemma write_file_no_timeout: "fst (write_file path text s) \<noteq> Inl Timeout"
  by (auto simp: write_file_def split: option.splits dest: open_error_cases)

lemma save_body_no_timeout: "fst (save_body self s) \<noteq> Inl Timeout"
  using write_file_no_timeout
  by (auto simp: save_body_def split: sum.splits
      dest: json_dumps_TypeError new_ConfigLocation_error cfg_read_error cp_setitem_error)

lemma save_no_timeout:
  "lock_counter st > 0 \<or> \<not> lock_held_elsewhere st \<Longrightarrow> fst (save self st) \<noteq> Inl Timeout"
  unfolding save_def by (rule locked_no_timeout) (simp_all add: save_body_no_timeout)

lemma generate_default_no_timeout:
  assumes "lock_counter s > 0"
  shows "fst (generate_default location s) \<noteq> Inl Timeout"
proof -
  have "fst (save conf (print_stderr m1 (print_stderr m2 s))) \<noteq> Inl Timeout" for conf m1 m2
    by (rule save_no_timeout) (simp add: print_stderr_def assms)
  then show ?thesis
    by (auto simp: generate_default_def Let_def split: sum.splits dest: Config_init_error)
qed

lemma load_section_no_timeout: "fst (load_section location s) \<noteq> Inl Timeout"
  by (auto simp: load_section_def Let_def split: sum.splits prod.splits
      dest: Config_init_error cfg_read_error section_or_default_error decode_token_error)

lemma get_config_body_no_timeout:
  assumes "lock_counter s > 0"
  shows "fst (get_config_body s) \<noteq> Inl Timeout"
proof -
  have "generate_default location s \<noteq> (Inl Timeout, s')" for location s'
    using generate_default_no_timeout [OF assms, of location] by auto
  then show ?thesis
    using load_section_no_timeout
    by (auto simp: get_config_body_def split: sum.splits prod.splits
        dest: new_ConfigLocation_error)
qed

lemma get_config_no_timeout:
  "lock_counter st > 0 \<or> \<not> lock_held_elsewhere st \<Longrightarrow> fst (get_config st) \<noteq> Inl Timeout"
  unfolding get_config_def by (rule locked_no_timeout) (simp_all add: get_config_body_no_timeout)

lemma clear_auth_body_no_timeout:
  assumes "lock_counter s > 0"
  shows "fst (clear_auth_body s) \<noteq> Inl Timeout"
proof -
  obtain r s1 where g: "get_config s = (r, s1)" by (cases "get_config s")
  have "lock_counter s1 = lock_counter s"
    using get_config_unchanged [of s] g by (simp add: unchanged_but_def)
  then have "fst (save conf s1) \<noteq> Inl Timeout" for conf
    using assms by (intro save_no_timeout) simp
  moreover have "r \<noteq> Inl Timeout"
    using get_config_no_timeout [of s] assms g by simp
  ultimately show ?thesis
    using g by (auto simp: clear_auth_body_def split: sum.splits)
qed

subsection \<open>What a load returns and what a save writes\<close>

text \<open>
  The lock is to be had when the process holds it already, or when the lock file can be opened
  and no other process holds it. The process then enters the decorated function in the state
  \<open>entered\<close>.
\<close>

definition available :: "process \<Rightarrow> bool" where
  "available st \<longleftrightarrow>
     lock_counter st > 0 \<or> (open_error (lock_file st) = None \<and> \<not> lock_held_elsewhere st)"

definition entered :: "process \<Rightarrow> process" where
  "entered st =
     (if lock_counter st > 0 then st\<lparr>lock_counter := lock_counter st + 1\<rparr>
      else st\<lparr>files := (files st)(lock_file st \<mapsto> []), lock_counter := 1\<rparr>)"

text \<open>
  The result of \<^verbatim>\<open>get_config\<close> from the parser that has read the file, and the text that \<^verbatim>\<open>save\<close>
  writes from the parser that has read the file.
\<close>

definition load_result :: "environment \<Rightarrow> string \<Rightarrow> configparser \<Rightarrow> error + Config" where
  "load_result env section tmp =
     bind (section_or_default tmp section) (\<lambda>mc.
     bind (decode_token (snd mc)) (\<lambda>kwargs. Config_init env kwargs))"


lemma acquire_available: "available st \<Longrightarrow> acquire st = (Inr (), entered st)"
  by (auto simp: available_def acquire_def entered_def Let_def)

lemma locked_available:
  "available st \<Longrightarrow> locked body st = (case body (entered st) of (r, st2) \<Rightarrow> (r, release st2))"
  by (simp add: locked_def acquire_available)

lemma entered_simps [simp]:
  "environ (entered st) = environ st"
  "config_section (entered st) = config_section st"
  "default_config_location (entered st) = default_config_location st"
  "default_path_lock (entered st) = default_path_lock st"
  "config_location (entered st) = config_location st"
  "lock_counter (entered st) = lock_counter st + 1"
  "lock_held_elsewhere (entered st) = lock_held_elsewhere st"
  "stderr (entered st) = stderr st"
  "new_ConfigLocation (entered st) = new_ConfigLocation st"
  "lock_file (entered st) = lock_file st"
  by (simp_all add: entered_def new_ConfigLocation_def lock_file_def)

lemma files_entered:
  "lock_counter st > 0 \<or> p \<noteq> lock_file st \<Longrightarrow> files (entered st) p = files st p"
  by (auto simp: entered_def)

lemma files_entered_held: "lock_counter st > 0 \<Longrightarrow> files (entered st) = files st"
  by (simp add: entered_def)

lemma available_entered [simp]: "available (entered st)"
  by (simp add: available_def)

lemma release_simps [simp]:
  "environ (release st) = environ st"
  "config_section (release st) = config_section st"
  "default_config_location (release st) = default_config_location st"
  "default_path_lock (release st) = default_path_lock st"
  "config_location (release st) = config_location st"
  "lock_held_elsewhere (release st) = lock_held_elsewhere st"
  "stderr (release st) = stderr st"
  "files (release st) = files st"
  "lock_counter (release st) = lock_counter st - 1"
  "new_ConfigLocation (release st) = new_ConfigLocation st"
  "lock_file (release st) = lock_file st"
  by (simp_all add: release_def new_ConfigLocation_def lock_file_def)

lemma print_stderr_simps [simp]:
  "environ (print_stderr msg st) = environ st"
  "config_section (print_stderr msg st) = config_section st"
  "default_config_location (print_stderr msg st) = default_config_location st"
  "default_path_lock (print_stderr msg st) = default_path_lock st"
  "config_location (print_stderr msg st) = config_location st"
  "lock_held_elsewhere (print_stderr msg st) = lock_held_elsewhere st"
  "stderr (print_stderr msg st) = stderr st @ [msg]"
  "files (print_stderr msg st) = files st"
  "lock_counter (print_stderr msg st) = lock_counter st"
  "new_ConfigLocation (print_stderr msg st) = new_ConfigLocation st"
  "lock_file (print_stderr msg st) = lock_file st"
  by (simp_all add: print_stderr_def new_ConfigLocation_def lock_file_def)

lemma available_print [simp]: "available (print_stderr msg st) = available st"
  by (simp add: available_def)

lemma release_entered: "release (entered st\<lparr>files := fs, stderr := out\<rparr>) = st\<lparr>files := fs, stderr := out\<rparr>"
  by (simp add: release_def entered_def)

text \<open>\<^verbatim>\<open>load_section\<close>\<close>

lemma fst_load_section:
  "fst (load_section location s) =
     bind (cfg_read (files s) location) (load_result (environ s) (config_section s))"
  by (auto simp: load_section_def load_result_def bind_def Let_def
      split: sum.splits prod.splits)

lemma files_load_section [simp]: "files (snd (load_section location s)) = files s"
  by (auto simp: load_section_def Let_def split: sum.splits prod.splits)

lemma counter_load_section [simp]:
  "lock_counter (snd (load_section location s)) = lock_counter s"
  by (auto simp: load_section_def Let_def split: sum.splits prod.splits)

lemma stderr_load_section_missing:
  assumes "cfg_read (files s) location = Inr tmp"
    and "section_or_default tmp (config_section s) = Inr (True, conf)"
  shows "(''Config section ['' @ config_section s @ ''] is invalid, generating defaults'')
         \<in> set (stderr (snd (load_section location s)))"
  using assms by (auto simp: load_section_def Let_def split: sum.splits prod.splits)

text \<open>\<^verbatim>\<open>get_config\<close> when the file is there\<close>

lemma get_config_body_existing:
  assumes "new_ConfigLocation s = Inr loc"
    and "path_exists (files s) (azul_config_location loc)"
  shows "get_config_body s = load_section (azul_config_location loc) s"
  using assms by (simp add: get_config_body_def generate_default_def)

lemma get_config_existing:
  assumes "new_ConfigLocation st = Inr loc"
    and "available st"
    and "path_exists (files (entered st)) (azul_config_location loc)"
  shows "get_config st =
     (case load_section (azul_config_location loc) (entered st) of
        (r, st2) \<Rightarrow> (r, release st2))"
  using assms by (simp add: get_config_def locked_available get_config_body_existing)

lemma fst_get_config_existing:
  assumes "new_ConfigLocation st = Inr loc"
    and "available st"
    and "open_error (azul_config_location loc) = None"
    and "files (entered st) (azul_config_location loc) = Some content"
  shows "fst (get_config st) =
           bind (read_text content) (load_result (environ st) (config_section st))"
    and "files (snd (get_config st)) = files (entered st)"
proof -
  have e: "path_exists (files (entered st)) (azul_config_location loc)"
    using assms(3,4) by (simp add: path_exists_def)
  have r: "cfg_read (files (entered st)) (azul_config_location loc) = read_text content"
    using assms(3,4) by (simp add: cfg_read_def)
  show "fst (get_config st) =
           bind (read_text content) (load_result (environ st) (config_section st))"
    using get_config_existing [OF assms(1,2) e]
      fst_load_section [of "azul_config_location loc" "entered st"] r
    by (simp split: prod.splits)
  obtain r st2 where l: "load_section (azul_config_location loc) (entered st) = (r, st2)"
    by (cases "load_section (azul_config_location loc) (entered st)")
  have "files st2 = files (entered st)"
    by (metis files_load_section l snd_conv)
  then show "files (snd (get_config st)) = files (entered st)"
    using get_config_existing [OF assms(1,2) e] l by simp
qed



section \<open>What the code guarantees\<close>

abbreviation example_location :: ConfigLocation where
  "example_location \<equiv>
     \<lparr>azul_config_location = ''/home/u/.azul.ini'',
      token_refresh_path_lock = ''/tmp/azul-token-refresh.lock'',
      token_lock_timeout = PyFloat ''30.0''\<rparr>"

abbreviation example_process :: process where
  "example_process \<equiv>
     \<lparr>environ = Map.empty, files = Map.empty, config_section = ''default'',
      default_config_location = ''/home/u/.azul.ini'',
      default_path_lock = ''/tmp/azul-token-refresh.lock'',
      config_location = example_location,
      lock_counter = 0, lock_held_elsewhere = False, stderr = []\<rparr>"


lemma example_process_lock:
  "lock_file example_process = ''/tmp/azul-token-refresh.lock''"
  "open_error ''/tmp/azul-token-refresh.lock'' = None"
  "open_error ''/home/u/.azul.ini'' = None"
  by (simp_all add: lock_file_def open_error_def)

subsection \<open>A token that cannot be serialised\<close>

text \<open>
  Claim C10. When \<^verbatim>\<open>json.dumps\<close> raises on the token of the record, \<^verbatim>\<open>save\<close> raises: the
  exception of \<^verbatim>\<open>json.dumps\<close> when the lock is to be had, and in any case some exception.
  Since \<^verbatim>\<open>json.dumps\<close> runs before the configuration file is opened for writing, \<^verbatim>\<open>save\<close> has
  then done nothing to the files but what taking the lock does: every file other than the
  lock file is as before the call, and the lock file too when the process held the lock
  already.
\<close>

theorem save_unserializable_token:
  assumes "json_dumps (token_value (auth_token self)) = Inl err"
  shows "(\<exists>err'. fst (save self st) = Inl err')
         \<and> (lock_counter st > 0 \<or> (open_error (lock_file st) = None \<and> \<not> lock_held_elsewhere st)
              \<longrightarrow> fst (save self st) = Inl err)
         \<and> files (snd (save self st)) = files (snd (acquire st))
         \<and> (\<forall>p. p \<noteq> lock_file st \<longrightarrow> files (snd (save self st)) p = files st p)
         \<and> (lock_counter st > 0 \<longrightarrow> files (snd (save self st)) = files st)"
  using assms
  by (auto simp: save_def locked_def acquire_def release_def save_body_def Let_def
           split: sum.splits prod.splits if_splits option.splits)

theorem save_unserializable_token_witness:
  "json_dumps (token_value (auth_token
      (Config_defaults\<lparr>auth_token := Some [(PStr ''t'', PObj ''bytes'')]\<rparr>))) = Inl TypeError
   \<and> fst (save (Config_defaults\<lparr>auth_token := Some [(PStr ''t'', PObj ''bytes'')]\<rparr>)
            example_process) = Inl TypeError
   \<and> files (snd (save (Config_defaults\<lparr>auth_token := Some [(PStr ''t'', PObj ''bytes'')]\<rparr>)
                   example_process)) ''/home/u/.azul.ini'' = None"
proof -
  have h: "json_dumps (token_value (auth_token
      (Config_defaults\<lparr>auth_token := Some [(PStr ''t'', PObj ''bytes'')]\<rparr>))) = Inl TypeError"
    by (simp add: token_value_def)
  show ?thesis
    using h save_unserializable_token [OF h, of example_process]
    by (simp add: example_process_lock acquire_def)
qed

subsection \<open>The lock is reentrant\<close>

text \<open>
  Claim C8. A process that holds the lock acquires it again at once, whoever else waits for
  the lock file and whatever the timeout is, and one release undoes one acquisition. So
  \<^verbatim>\<open>clear_auth\<close>, which takes the lock and then calls \<^verbatim>\<open>get_config\<close> and \<^verbatim>\<open>save\<close>, which take it
  again, never raises \<^verbatim>\<open>Timeout\<close> when the lock was to be had at its start, and leaves the
  counter of the lock as it found it.
\<close>

theorem clear_auth_reentrant:
  "(lock_counter st > 0 \<longrightarrow>
      acquire st = (Inr (), st\<lparr>lock_counter := lock_counter st + 1\<rparr>)
      \<and> release (st\<lparr>lock_counter := lock_counter st + 1\<rparr>) = st)
   \<and> (lock_counter st > 0 \<or> \<not> lock_held_elsewhere st \<longrightarrow>
      fst (clear_auth st) \<noteq> Inl Timeout
      \<and> lock_counter (snd (clear_auth st)) = lock_counter st)"
proof -
  have "fst (clear_auth st) \<noteq> Inl Timeout"
    if "lock_counter st > 0 \<or> \<not> lock_held_elsewhere st"
    unfolding clear_auth_def using that
    by (rule locked_no_timeout) (rule clear_auth_body_no_timeout)
  moreover have "lock_counter (snd (clear_auth st)) = lock_counter st"
    using clear_auth_unchanged [of st] by (simp add: unchanged_but_def)
  ultimately show ?thesis
    by (simp add: acquire_def release_def)
qed

theorem clear_auth_reentrant_witness:
  "acquire (example_process\<lparr>lock_counter := 1, lock_held_elsewhere := True\<rparr>)
     = (Inr (), example_process\<lparr>lock_counter := 2, lock_held_elsewhere := True\<rparr>)
   \<and> fst (clear_auth example_process) \<noteq> Inl Timeout
   \<and> lock_counter (snd (clear_auth example_process)) = 0"
  using clear_auth_reentrant [of example_process]
    clear_auth_reentrant [of "example_process\<lparr>lock_counter := 1, lock_held_elsewhere := True\<rparr>"]
  by simp

subsection \<open>A token that cannot be decoded\<close>

abbreviation interpolated_token_file :: string where
  "interpolated_token_file \<equiv>
     ''[default]'' @ [NL] @ ''auth_client_secret ='' @ [NL]
     @ ''auth_token = %(auth_client_secret)s{}'' @ [NL]"

text \<open>
  Claim C6, as it is stated, fails: what \<^verbatim>\<open>json.loads\<close> gets is not the value that the section
  stores but the value that \<^verbatim>\<open>configparser\<close> returns for it, after interpolation. In the file
  below the section stores \<^verbatim>\<open>%(auth_client_secret)s{}\<close> as the token, which is not empty and not
  JSON; with the empty secret it is returned as \<^verbatim>\<open>{}\<close>, and \<^verbatim>\<open>get_config\<close> returns the record
  of the defaults.
\<close>

theorem get_config_stored_token_counterexample:
  "read_text interpolated_token_file
     = Inr \<lparr>defaults = [],
            sections = [(''default'', [(''auth_client_secret'', []),
                                       (''auth_token'', ''%(auth_client_secret)s{}'')])]\<rparr>
   \<and> json_loads ''%(auth_client_secret)s{}'' = Inl JSONDecodeError
   \<and> fst (get_config
         (example_process\<lparr>files := [''/home/u/.azul.ini'' \<mapsto> interpolated_token_file]\<rparr>))
       = Inr Config_defaults"
proof -
  let ?st = "example_process\<lparr>files := [''/home/u/.azul.ini'' \<mapsto> interpolated_token_file]\<rparr>"
  let ?tmp = "\<lparr>defaults = [],
            sections = [(''default'', [(''auth_client_secret'', []),
                                       (''auth_token'', ''%(auth_client_secret)s{}'')])]\<rparr>"
  have r: "read_text interpolated_token_file = Inr ?tmp"
    by code_simp
  have j: "json_loads ''%(auth_client_secret)s{}'' = Inl JSONDecodeError"
    by code_simp
  have l: "load_result Map.empty ''default'' ?tmp = Inr Config_defaults"
    by code_simp
  have 1: "new_ConfigLocation ?st = Inr example_location"
    by (simp add: new_ConfigLocation_def ConfigLocation_init_def field_def bind_def)
  have 2: "available ?st"
    by (simp add: available_def lock_file_def open_error_def)
  have 3: "files (entered ?st) (azul_config_location example_location)
           = Some interpolated_token_file"
    by (simp add: entered_def lock_file_def)
  have "fst (get_config ?st) = Inr Config_defaults"
    using fst_get_config_existing(1) [OF 1 2 _ 3] r l
    by (simp add: open_error_def bind_def)
  with r j show ?thesis by simp
qed

text \<open>
  Claim C6, amended. The file exists and is read, and \<open>conf\<close> is the dictionary of the active
  section with the values as \<^verbatim>\<open>configparser\<close> returns them, that is after interpolation. When
  \<^verbatim>\<open>auth_token\<close> is there, is not empty and is not JSON, \<^verbatim>\<open>get_config\<close> raises the
  \<^verbatim>\<open>JSONDecodeError\<close> of \<^verbatim>\<open>json.loads\<close>, and the configuration file is as it was. When
  \<^verbatim>\<open>auth_token\<close> is missing or empty, nothing is decoded: the record is made from the strings
  of the section.
\<close>

theorem get_config_malformed_token:
  assumes "new_ConfigLocation st = Inr loc"
    and "available st"
    and "lock_counter st > 0 \<or> lock_file st \<noteq> azul_config_location loc"
    and "open_error (azul_config_location loc) = None"
    and "files st (azul_config_location loc) = Some content"
    and "read_text content = Inr tmp"
    and "section_or_default tmp (config_section st) = Inr (missing, conf)"
  shows "(map_of conf ''auth_token'' = Some js \<and> js \<noteq> [] \<and> json_loads js = Inl JSONDecodeError
            \<longrightarrow> fst (get_config st) = Inl JSONDecodeError
                \<and> files (snd (get_config st)) (azul_config_location loc) = Some content
                \<and> (\<forall>p. p \<noteq> lock_file st \<longrightarrow> files (snd (get_config st)) p = files st p))
         \<and> (map_of conf ''auth_token'' = None \<or> map_of conf ''auth_token'' = Some []
            \<longrightarrow> fst (get_config st)
                = Config_init (environ st) (map (\<lambda>(k, v). (k, PStr v)) conf))"
proof -
  have e: "files (entered st) (azul_config_location loc) = Some content"
    using assms(3,5) by (auto simp: files_entered)
  have g: "fst (get_config st) = bind (decode_token conf) (Config_init (environ st))"
    using fst_get_config_existing(1) [OF assms(1,2,4) e] assms(6,7)
    by (simp add: bind_def load_result_def)
  have f: "files (snd (get_config st)) = files (entered st)"
    by (rule fst_get_config_existing(2) [OF assms(1,2,4) e])
  show ?thesis
    using g f e by (auto simp: decode_token_def bind_def files_entered)
qed

abbreviation bad_token :: string where
  "bad_token \<equiv> ''{'' @ [CHR 0x22, CHR ''a'', CHR 0x22] @ '': 1.5''"

abbreviation bad_token_file :: string where
  "bad_token_file \<equiv> ''[default]'' @ [NL] @ ''auth_token = '' @ bad_token @ [NL]"

theorem get_config_malformed_token_witness:
  "fst (get_config (example_process\<lparr>files := [''/home/u/.azul.ini'' \<mapsto> bad_token_file]\<rparr>))
     = Inl JSONDecodeError
   \<and> files (snd (get_config
        (example_process\<lparr>files := [''/home/u/.azul.ini'' \<mapsto> bad_token_file]\<rparr>)))
        ''/home/u/.azul.ini''
     = Some bad_token_file"
proof -
  let ?st = "example_process\<lparr>files := [''/home/u/.azul.ini'' \<mapsto> bad_token_file]\<rparr>"
  let ?tmp = "\<lparr>defaults = [], sections = [(''default'', [(''auth_token'', bad_token)])]\<rparr>"
  have 1: "new_ConfigLocation ?st = Inr example_location"
    by (simp add: new_ConfigLocation_def ConfigLocation_init_def field_def bind_def)
  have 2: "available ?st"
    by (simp add: available_def lock_file_def open_error_def)
  have 3: "lock_counter ?st > 0 \<or> lock_file ?st \<noteq> azul_config_location example_location"
    by (simp add: lock_file_def)
  have 4: "open_error (azul_config_location example_location) = None"
    by (simp add: open_error_def)
  have 5: "files ?st (azul_config_location example_location) = Some bad_token_file"
    by simp
  have 6: "read_text bad_token_file = Inr ?tmp"
    by code_simp
  have 7: "section_or_default ?tmp (config_section ?st)
           = Inr (False, [(''auth_token'', bad_token)])"
    by code_simp
  have 8: "json_loads bad_token = Inl JSONDecodeError"
    by code_simp
  show ?thesis
    using get_config_malformed_token [OF 1 2 3 4 5 6 7, of "''{\"a\": 1.5''"] 8 by simp
qed

subsection \<open>Where the configuration file is\<close>




subsection \<open>A section that the file does not have\<close>

abbreviation prod_file :: string where
  "prod_file \<equiv> ''[prod]'' @ [NL] @ ''azul_url = http://azul'' @ [NL]"

text \<open>
  Claim C2, as it is stated, fails twice on a file that has the section \<^verbatim>\<open>prod\<close> only. With
  the active section \<^verbatim>\<open>DEFAULT\<close>, which is not \<^verbatim>\<open>default\<close> and which the file does not have,
  \<^verbatim>\<open>get_config\<close> raises nothing and returns the defaults: \<^verbatim>\<open>configparser\<close> finds its default
  section in every parser. With the active section \<^verbatim>\<open>default\<close> and the variable \<^verbatim>\<open>AUTH_TYPE\<close>
  set, the record returned is not the record of the defaults: \<^verbatim>\<open>Config\<close> is a \<^verbatim>\<open>BaseSettings\<close>.
\<close>

theorem get_config_missing_section_counterexample:
  "\<not> has_section \<lparr>defaults = [], sections = [(''prod'', [(''azul_url'', ''http://azul'')])]\<rparr>
        ''DEFAULT''
   \<and> fst (get_config (example_process\<lparr>files := [''/home/u/.azul.ini'' \<mapsto> prod_file],
                                      config_section := ''DEFAULT''\<rparr>)) = Inr Config_defaults
   \<and> fst (get_config (example_process\<lparr>files := [''/home/u/.azul.ini'' \<mapsto> prod_file],
                                      environ := [''auth_type'' \<mapsto> ''basic'']\<rparr>))
       = Inr (Config_defaults\<lparr>auth_type := ''basic''\<rparr>)"
proof -
  let ?tmp = "\<lparr>defaults = [], sections = [(''prod'', [(''azul_url'', ''http://azul'')])]\<rparr>"
  let ?st = "example_process\<lparr>files := [''/home/u/.azul.ini'' \<mapsto> prod_file],
                             config_section := ''DEFAULT''\<rparr>"
  let ?st' = "example_process\<lparr>files := [''/home/u/.azul.ini'' \<mapsto> prod_file],
                              environ := [''auth_type'' \<mapsto> ''basic'']\<rparr>"
  have r: "read_text prod_file = Inr ?tmp"
    by code_simp
  have d: "load_result Map.empty ''DEFAULT'' ?tmp = Inr Config_defaults"
    by code_simp
  have s: "section_or_default ?tmp ''default'' = Inr (True, [])"
    by code_simp
  have c: "Config_init [''auth_type'' \<mapsto> ''basic''] []
           = Inr (Config_defaults\<lparr>auth_type := ''basic''\<rparr>)"
    by (simp add: Config_init_def field_def token_field_def bind_def Config_defaults_def
          no_trailing_slash_def rstrip_slash_def)
  have d': "load_result [''auth_type'' \<mapsto> ''basic''] ''default'' ?tmp
            = Inr (Config_defaults\<lparr>auth_type := ''basic''\<rparr>)"
    by (simp add: load_result_def s bind_def decode_token_def c)
  have h: "\<not> has_section ?tmp ''DEFAULT''"
    by (simp add: has_section_def)
  have n: "new_ConfigLocation ?st = Inr example_location"
    "new_ConfigLocation ?st' = Inr example_location"
    by (simp_all add: new_ConfigLocation_def ConfigLocation_init_def field_def bind_def)
  have a: "available ?st" "available ?st'"
    by (simp_all add: available_def lock_file_def open_error_def)
  have f: "files (entered ?st) (azul_config_location example_location) = Some prod_file"
    "files (entered ?st') (azul_config_location example_location) = Some prod_file"
    by (simp_all add: entered_def lock_file_def)
  have "fst (get_config ?st) = Inr Config_defaults"
    using fst_get_config_existing(1) [OF n(1) a(1) _ f(1)] r d
    by (simp add: open_error_def bind_def)
  moreover have "fst (get_config ?st') = Inr (Config_defaults\<lparr>auth_type := ''basic''\<rparr>)"
    using fst_get_config_existing(1) [OF n(2) a(2) _ f(2)] r d'
    by (simp add: open_error_def bind_def)
  ultimately show ?thesis
    using h by simp
qed

text \<open>
  Claim C2, amended. The file exists and is read, and it does not have the active section.
  When the active section is \<^verbatim>\<open>default\<close>, \<^verbatim>\<open>get_config\<close> says so on \<^verbatim>\<open>stderr\<close> and does what
  \<^verbatim>\<open>Config()\<close> does: it returns the declared defaults, each replaced by what the environment
  variable of its name gives if there is one, and raises what \<^verbatim>\<open>Config()\<close> raises when such a
  variable is not valid; so it returns the record of the defaults when there is no such
  variable. When the active section is neither \<^verbatim>\<open>default\<close> nor the \<^verbatim>\<open>DEFAULT\<close> of \<^verbatim>\<open>configparser\<close>,
  it raises the exception that names the section. In both cases the configuration file is as
  it was, and so is every file but the lock file.
\<close>

theorem get_config_missing_section:
  assumes "new_ConfigLocation st = Inr loc"
    and "available st"
    and "lock_counter st > 0 \<or> lock_file st \<noteq> azul_config_location loc"
    and "open_error (azul_config_location loc) = None"
    and "files st (azul_config_location loc) = Some content"
    and "read_text content = Inr tmp"
    and "\<not> has_section tmp (config_section st)"
  shows "(config_section st = ''default'' \<longrightarrow>
            fst (get_config st) = Config_init (environ st) []
            \<and> (''Config section [default] is invalid, generating defaults''
                 \<in> set (stderr (snd (get_config st)))))
         \<and> (config_section st = ''default'' \<and> (\<forall>name \<in> set field_names. environ st name = None)
              \<longrightarrow> fst (get_config st) = Inr Config_defaults)
         \<and> (config_section st \<noteq> ''default'' \<and> config_section st \<noteq> ''DEFAULT'' \<longrightarrow>
              fst (get_config st) = Inl (InvalidSection (config_section st)))
         \<and> files (snd (get_config st)) (azul_config_location loc) = Some content
         \<and> (\<forall>p. p \<noteq> lock_file st \<longrightarrow> files (snd (get_config st)) p = files st p)"
proof -
  have e: "files (entered st) (azul_config_location loc) = Some content"
    using assms(3,5) by (auto simp: files_entered)
  have x: "path_exists (files (entered st)) (azul_config_location loc)"
    using assms(4) e by (simp add: path_exists_def)
  have cr: "cfg_read (files (entered st)) (azul_config_location loc) = Inr tmp"
    using assms(4,6) e by (simp add: cfg_read_def)
  have s: "section_or_default tmp (config_section st)
      = (if config_section st = ''default'' then Inr (True, [])
         else Inl (InvalidSection (config_section st)))"
    if "config_section st \<noteq> ''DEFAULT''"
    using assms(7) that
    by (simp add: section_or_default_def section_as_dict_def default_section_def)
  have c: "Config_init (environ st) [] = Inr Config_defaults"
    if "\<forall>name \<in> set field_names. environ st name = None"
    using that
    by (simp add: Config_init_def field_def token_field_def bind_def Config_defaults_def
          field_names_def no_trailing_slash_def rstrip_slash_def)
  have g: "fst (get_config st)
      = bind (section_or_default tmp (config_section st)) (\<lambda>mc.
        bind (decode_token (snd mc)) (\<lambda>kwargs. Config_init (environ st) kwargs))"
    using fst_get_config_existing(1) [OF assms(1,2,4) e] assms(6)
    by (simp add: bind_def load_result_def)
  have f: "files (snd (get_config st)) = files (entered st)"
    by (rule fst_get_config_existing(2) [OF assms(1,2,4) e])
  have p: "''Config section [default] is invalid, generating defaults''
        \<in> set (stderr (snd (get_config st)))"
    if d: "config_section st = ''default''"
  proof -
    have "section_or_default tmp (config_section (entered st)) = Inr (True, [])"
      using s d by simp
    from stderr_load_section_missing [OF cr this]
    show ?thesis
      using get_config_existing [OF assms(1,2) x] d by (auto split: prod.splits)
  qed
  have 1: "fst (get_config st) = Config_init (environ st) []"
    if "config_section st = ''default''"
    using g s that by (simp add: bind_def decode_token_def)
  have 2: "fst (get_config st) = Inl (InvalidSection (config_section st))"
    if "config_section st \<noteq> ''default''" "config_section st \<noteq> ''DEFAULT''"
    using g s that by (simp add: bind_def)
  show ?thesis
    using 1 2 c p f e by (auto simp: files_entered)
qed

theorem get_config_missing_section_witness:
  "fst (get_config (example_process\<lparr>files := [''/home/u/.azul.ini'' \<mapsto> prod_file]\<rparr>))
     = Inr Config_defaults
   \<and> fst (get_config (example_process\<lparr>files := [''/home/u/.azul.ini'' \<mapsto> prod_file],
                                      config_section := ''test''\<rparr>))
     = Inl (InvalidSection ''test'')
   \<and> files (snd (get_config (example_process\<lparr>files := [''/home/u/.azul.ini'' \<mapsto> prod_file],
                                             config_section := ''test''\<rparr>)))
        ''/home/u/.azul.ini''
     = Some prod_file"
proof -
  let ?st = "example_process\<lparr>files := [''/home/u/.azul.ini'' \<mapsto> prod_file]\<rparr>"
  let ?st' = "example_process\<lparr>files := [''/home/u/.azul.ini'' \<mapsto> prod_file],
                              config_section := ''test''\<rparr>"
  let ?tmp = "\<lparr>defaults = [], sections = [(''prod'', [(''azul_url'', ''http://azul'')])]\<rparr>"
  have 1: "new_ConfigLocation ?st = Inr example_location"
    "new_ConfigLocation ?st' = Inr example_location"
    by (simp_all add: new_ConfigLocation_def ConfigLocation_init_def field_def bind_def)
  have 2: "available ?st" "available ?st'"
    by (simp_all add: available_def lock_file_def open_error_def)
  have 3: "lock_counter ?st > 0 \<or> lock_file ?st \<noteq> azul_config_location example_location"
    "lock_counter ?st' > 0 \<or> lock_file ?st' \<noteq> azul_config_location example_location"
    by (simp_all add: lock_file_def)
  have 4: "open_error (azul_config_location example_location) = None"
    by (simp add: open_error_def)
  have 5: "files ?st (azul_config_location example_location) = Some prod_file"
    "files ?st' (azul_config_location example_location) = Some prod_file"
    by simp_all
  have 6: "read_text prod_file = Inr ?tmp"
    by code_simp
  have 7: "\<not> has_section ?tmp (config_section ?st)" "\<not> has_section ?tmp (config_section ?st')"
    by (simp_all add: has_section_def)
  have 8: "Config_init Map.empty [] = Inr Config_defaults"
    by (simp add: Config_init_def field_def token_field_def bind_def Config_defaults_def
          no_trailing_slash_def rstrip_slash_def)
  show ?thesis
    using get_config_missing_section [OF 1(1) 2(1) 3(1) 4 5(1) 6 7(1)]
      get_config_missing_section [OF 1(2) 2(2) 3(2) 4 5(2) 6 7(2)] 8
    by (simp add: field_names_def)
qed

end
